theory Spec2Isabelle
  imports Main "HOL-Library.Sublist"
begin

section \<open>Request bodies: parsed JSON\<close>

text \<open>
  The route handlers read \<^verbatim>\<open>await request.json()\<close>, an untyped value. It is modelled
  as a JSON tree. The handlers never compute with the numbers of a body (they test them
  for truthiness and copy them), so the carrier of numbers is a type parameter; the
  number zero is the only falsy one (JSON has no NaN). A string is a list of code
  units below 256 (Latin-1). An object is the list of its own properties, each key once.
\<close>

datatype 'n json =
    JNull
  | JBool bool
  | JNum 'n
  | JStr string
  | JArr "'n json list"
  | JObj "(string \<times> 'n json) list"

text \<open>A JavaScript value read from a body: \<open>None\<close> is \<^verbatim>\<open>undefined\<close>.\<close>

type_synonym 'n jsval = "'n json option"

fun truthy :: "'n::zero_neq_one json \<Rightarrow> bool" where
  "truthy JNull = False"
| "truthy (JBool b) = b"
| "truthy (JNum n) = (n \<noteq> 0)"
| "truthy (JStr s) = (s \<noteq> [])"
| "truthy (JArr xs) = True"
| "truthy (JObj kvs) = True"

definition truthy_val :: "'n::zero_neq_one jsval \<Rightarrow> bool" where
  "truthy_val v = (case v of None \<Rightarrow> False | Some j \<Rightarrow> truthy j)"

text \<open>
  Property read \<^verbatim>\<open>x.f\<close> on a value other than \<^verbatim>\<open>null\<close> (on \<^verbatim>\<open>null\<close> it
  throws, which every caller below checks first). None of the property names the
  handlers read exists on the prototypes of strings, numbers, booleans or arrays.
\<close>

fun property :: "'n json \<Rightarrow> string \<Rightarrow> 'n jsval" where
  "property (JObj kvs) f = map_of kvs f"
| "property _ f = None"

text \<open>\<^verbatim>\<open>typeof v === "number"\<close>\<close>

fun is_number :: "'n jsval \<Rightarrow> bool" where
  "is_number (Some (JNum n)) = True"
| "is_number _ = False"

text \<open>\<^verbatim>\<open>a ?? b\<close>\<close>

fun coalesce :: "'n jsval \<Rightarrow> 'n json \<Rightarrow> 'n json" where
  "coalesce None b = b"
| "coalesce (Some JNull) b = b"
| "coalesce (Some a) b = a"

text \<open>\<^verbatim>\<open>a || b\<close>\<close>

definition or_else :: "'n::zero_neq_one jsval \<Rightarrow> 'n json \<Rightarrow> 'n json" where
  "or_else a b = (case a of None \<Rightarrow> b | Some j \<Rightarrow> if truthy j then j else b)"

section \<open>String operations of the handlers\<close>

definition toLowerCase_char :: "char \<Rightarrow> char" where
  "toLowerCase_char c =
     (let n = of_char c :: nat
      in if (65 \<le> n \<and> n \<le> 90) \<or> (192 \<le> n \<and> n \<le> 222 \<and> n \<noteq> 215)
         then char_of (n + 32) else c)"

definition toLowerCase :: "string \<Rightarrow> string" where
  "toLowerCase s = map toLowerCase_char s"

text \<open>The class \<^verbatim>\<open>\s\<close> of a JavaScript regular expression, below code unit 256.\<close>

definition is_space :: "char \<Rightarrow> bool" where
  "is_space c = ((of_char c :: nat) \<in> {9, 10, 11, 12, 13, 32, 160})"

text \<open>\<^verbatim>\<open>s.replace(/\s+/g, "-")\<close>: every maximal run of white space becomes one dash.\<close>

function replace_spaces :: "string \<Rightarrow> string" where
  "replace_spaces [] = []"
| "replace_spaces (c # cs) =
     (if is_space c then CHR ''-'' # replace_spaces (dropWhile is_space cs)
      else c # replace_spaces cs)"
  by pat_completeness auto
termination
  by (relation "measure length") (auto simp: length_dropWhile_le less_Suc_eq_le)

definition normalize_name :: "string \<Rightarrow> string" where
  "normalize_name s = replace_spaces (toLowerCase s)"

text \<open>\<^verbatim>\<open>xs.slice(-8)\<close>, on a string and on an array: the last eight elements, or all.\<close>

definition slice8 :: "'a list \<Rightarrow> 'a list" where
  "slice8 xs = drop (length xs - 8) xs"

text \<open>\<^verbatim>\<open>key.includes(sub)\<close>\<close>

definition string_includes :: "string \<Rightarrow> string \<Rightarrow> bool" where
  "string_includes key sub = sublist sub key"

text \<open>The decimal digits of \<^verbatim>\<open>Date.now()\<close> inside a template literal.\<close>

function digits :: "nat \<Rightarrow> string" where
  "digits n = (if n < 10 then [char_of (48 + n)] else digits (n div 10) @ [char_of (48 + n mod 10)])"
  by pat_completeness auto
termination
  by (relation "measure (\<lambda>n. n)") auto

declare digits.simps [simp del]

definition show_int :: "int \<Rightarrow> string" where
  "show_int i = (if i < 0 then CHR ''-'' # digits (nat (- i)) else digits (nat i))"

fun join :: "string \<Rightarrow> string list \<Rightarrow> string" where
  "join sep [] = []"
| "join sep [x] = x"
| "join sep (x # y # ys) = x @ sep @ join sep (y # ys)"

text \<open>
  String conversion of a value in a template literal or as the argument of
  \<^verbatim>\<open>includes\<close>. The rendering of a number is the parameter \<open>numstr\<close>
  (ECMAScript's Number::toString on the carrier of numbers). An object renders through
  \<^verbatim>\<open>Object.prototype.toString\<close> unless it has an own \<^verbatim>\<open>toString\<close> property:
  no value of a parsed body is callable, so the conversion then throws a TypeError
  (\<open>None\<close>). An array joins its elements, \<^verbatim>\<open>null\<close> as the empty string.
\<close>

fun to_string :: "('n \<Rightarrow> string) \<Rightarrow> 'n json \<Rightarrow> string option" where
  "to_string numstr JNull = Some ''null''"
| "to_string numstr (JBool b) = Some (if b then ''true'' else ''false'')"
| "to_string numstr (JNum n) = Some (numstr n)"
| "to_string numstr (JStr s) = Some s"
| "to_string numstr (JArr xs) =
     map_option (join '','')
       (those (map (\<lambda>x. case x of JNull \<Rightarrow> Some [] | _ \<Rightarrow> to_string numstr x) xs))"
| "to_string numstr (JObj kvs) =
     (case map_of kvs ''toString'' of None \<Rightarrow> Some ''[object Object]'' | Some m \<Rightarrow> None)"

text \<open>Whether the string conversion of a value returns.\<close>

fun can_stringify :: "'n json \<Rightarrow> bool" where
  "can_stringify (JArr xs) = (\<forall>x \<in> set xs. can_stringify x)"
| "can_stringify (JObj kvs) = (map_of kvs ''toString'' = None)"
| "can_stringify _ = True"

text \<open>
  \<^verbatim>\<open>`${sessionId.slice(-8)}`\<close>: strings and arrays have \<^verbatim>\<open>slice\<close>; on any other
  value the call throws a TypeError (\<open>None\<close>), as does the conversion of an array
  that holds an object with an own \<^verbatim>\<open>toString\<close>.
\<close>

fun slice8_string :: "('n \<Rightarrow> string) \<Rightarrow> 'n json \<Rightarrow> string option" where
  "slice8_string numstr (JStr s) = Some (slice8 s)"
| "slice8_string numstr (JArr xs) = to_string numstr (JArr (slice8 xs))"
| "slice8_string numstr _ = None"

section \<open>The store\<close>

record 'n StockData =
  id' :: string
  name :: "'n json"
  price :: "'n json"
  quantity :: "'n json"
  lastUpdated :: int
  createdAt :: int

text \<open>
  The interface declares \<^verbatim>\<open>name: string; price: number; quantity: number\<close>, but PUT
  stores whatever the body carries in these fields, so they hold JSON values. The two
  time stamps always come from \<^verbatim>\<open>Date.now()\<close>, an integer of milliseconds.

  \<^verbatim>\<open>stocksData\<close> is a JavaScript Map: its entries in insertion order.
  \<^verbatim>\<open>set\<close> replaces the value of a present key in place and appends a new key at the
  end, \<^verbatim>\<open>delete\<close> removes the key, \<^verbatim>\<open>get\<close> is \<^const>\<open>map_of\<close>. Every stored
  object is referenced from one key only (POST and PUT store fresh objects, PATCH
  mutates the object of the key it sets), so values stand for the objects.
\<close>

type_synonym 'n store = "(string \<times> 'n StockData) list"

primrec store_set :: "string \<Rightarrow> 'v \<Rightarrow> (string \<times> 'v) list \<Rightarrow> (string \<times> 'v) list" where
  "store_set k v [] = [(k, v)]"
| "store_set k v (e # es) = (if fst e = k then (k, v) # es else e # store_set k v es)"

definition store_delete :: "string \<Rightarrow> (string \<times> 'v) list \<Rightarrow> (string \<times> 'v) list" where
  "store_delete k s = filter (\<lambda>e. fst e \<noteq> k) s"

text \<open>A store that represents a Map holds every key once.\<close>

definition is_map :: "(string \<times> 'v) list \<Rightarrow> bool" where
  "is_map s = distinct (map fst s)"

text \<open>
  What every store reached from the empty one satisfies (see \<open>store_ok_POST\<close> and its
  companions below): a Map without the empty key.
\<close>

definition store_ok :: "'n store \<Rightarrow> bool" where
  "store_ok s = (is_map s \<and> [] \<notin> fst ` set s)"

definition CLEANUP_INTERVAL :: int where
  "CLEANUP_INTERVAL = 5 * 60 * 1000"

definition DATA_EXPIRY :: int where
  "DATA_EXPIRY = 10 * 60 * 1000"

definition expired :: "int \<Rightarrow> 'n StockData \<Rightarrow> bool" where
  "expired now data = (now - lastUpdated data > DATA_EXPIRY)"

text \<open>
  \<^verbatim>\<open>cleanupExpiredData\<close>, with the reading \<open>now\<close> of the clock. The loop visits the
  entries the Map holds when it starts: it deletes only the entry it is visiting, which
  leaves the entries still to be visited in place.
\<close>

definition cleanupExpiredData :: "int \<Rightarrow> 'n store \<Rightarrow> 'n store" where
  "cleanupExpiredData now s =
     fold (\<lambda>(key, data) m. if expired now data then store_delete key m else m) s s"

section \<open>Requests and responses\<close>

record 'n request =
  key_param :: "string option"
  id_param :: "string option"
  authorization :: "string option"
  json_body :: "'n json option"

text \<open>
  \<open>key_param\<close> and \<open>id_param\<close> are \<^verbatim>\<open>searchParams.get("key")\<close> and
  \<^verbatim>\<open>searchParams.get("id")\<close>, \<open>authorization\<close> is the Authorization header, and
  \<open>json_body\<close> is \<open>None\<close> when \<^verbatim>\<open>request.json()\<close> rejects (no body, or not JSON).

  A response is its status and the payload of its body. The \<^verbatim>\<open>message\<close> texts are
  left out, an ISO time string is recorded as the instant it renders, and of the summary
  of a session batch only the echoed session id and the time stamp are recorded.
\<close>

datatype 'n payload =
    Failure string
  | Stock "'n StockData" "string option"
  | Stocks "'n StockData list" nat int "string option" "string option"
  | Created "'n StockData"
  | BatchSummary "'n json" int
  | Updated "'n StockData"
  | SessionCleaned string nat "'n json"
  | Deleted "'n StockData"
  | Pinged int

record 'n response =
  status :: nat
  body :: "'n payload"

definition failure :: "nat \<Rightarrow> string \<Rightarrow> 'n response" where
  "failure st err = \<lparr>status = st, body = Failure err\<rparr>"

definition authorize :: "'n request \<Rightarrow> string \<Rightarrow> 'n response option" where
  "authorize request method =
     (let keyParam = key_param request
      in if method = ''GET'' \<and> keyParam = Some ''status'' then None
         else (case authorization request of
                 None \<Rightarrow> Some (failure 401 ''Unauthorized'')
               | Some authHeader \<Rightarrow>
                   if authHeader = [] \<or> authHeader \<noteq> ''GAMERSBERG''
                   then Some (failure 401 ''Unauthorized'')
                   else None))"

section \<open>GET\<close>

text \<open>\<open>now\<close> is the clock read by the sweep, \<open>t\<close> the one read for \<^verbatim>\<open>lastCleanup\<close>.\<close>

definition GET :: "'n request \<Rightarrow> int \<Rightarrow> int \<Rightarrow> 'n store \<Rightarrow> 'n response \<times> 'n store" where
  "GET request now t s =
     (case authorize request ''GET'' of
        Some authError \<Rightarrow> (authError, s)
      | None \<Rightarrow>
          let isPublicAccess = (key_param request = Some ''status'');
              s' = cleanupExpiredData now s
          in (case id_param request of
                Some (c # cs) \<Rightarrow>
                  (case map_of s' (c # cs) of
                     None \<Rightarrow> (failure 404 ''Not found'', s')
                   | Some stock \<Rightarrow>
                       (\<lparr>status = 200,
                         body = Stock stock (if isPublicAccess then Some ''public'' else None)\<rparr>, s'))
              | _ \<Rightarrow>
                  let allStocks = map snd s'
                  in (\<lparr>status = 200,
                       body = Stocks allStocks (length allStocks) t
                         (if isPublicAccess then Some ''public'' else None)
                         (if isPublicAccess then Some ''Public access via ?key=status parameter''
                          else None)\<rparr>, s')))"

section \<open>POST\<close>

definition fruit_entry ::
  "string \<Rightarrow> string \<Rightarrow> string \<Rightarrow> 'n::zero_neq_one \<Rightarrow> string \<Rightarrow> int \<Rightarrow> 'n StockData" where
  "fruit_entry tag label nm p sfx now =
     \<lparr>id' = tag @ ''-'' @ normalize_name nm @ ''-'' @ sfx,
      name = JStr (nm @ '' ('' @ label @ '')''),
      price = JNum p,
      quantity = JNum 1,
      lastUpdated = now,
      createdAt = now\<rparr>"

text \<open>
  The body of either loop, for one element \<open>fruit\<close>; \<open>tag\<close> and \<open>label\<close> are
  \<^verbatim>\<open>normal\<close>/\<^verbatim>\<open>Normal\<close> in the first loop and \<^verbatim>\<open>mirage\<close>/\<^verbatim>\<open>Mirage\<close> in the
  second. \<open>None\<close> is a TypeError: \<^verbatim>\<open>fruit\<close> is null, or a truthy name has no
  \<^verbatim>\<open>toLowerCase\<close>, or the session id has no \<^verbatim>\<open>slice\<close>.
\<close>

definition upsert_fruit ::
  "('n \<Rightarrow> string) \<Rightarrow> string \<Rightarrow> string \<Rightarrow> 'n::zero_neq_one json \<Rightarrow> int \<Rightarrow> 'n json \<Rightarrow> 'n store
     \<Rightarrow> 'n store option" where
  "upsert_fruit numstr tag label sessionId now fruit s =
     (if fruit = JNull then None
      else if truthy_val (property fruit ''name'') \<and> is_number (property fruit ''price'') then
        (case (property fruit ''name'', property fruit ''price'') of
           (Some (JStr nm), Some (JNum p)) \<Rightarrow>
             (case slice8_string numstr sessionId of
                None \<Rightarrow> None
              | Some sfx \<Rightarrow>
                  let stockData = fruit_entry tag label nm p sfx now
                  in Some (store_set (id' stockData) stockData s))
         | _ \<Rightarrow> None)
      else Some s)"

text \<open>A loop over an array: \<open>Inl\<close> is the store at the moment an element threw.\<close>

fun process_stock ::
  "('n \<Rightarrow> string) \<Rightarrow> string \<Rightarrow> string \<Rightarrow> 'n::zero_neq_one json \<Rightarrow> int \<Rightarrow> 'n json list \<Rightarrow> 'n store
     \<Rightarrow> 'n store + 'n store" where
  "process_stock numstr tag label sessionId now [] s = Inr s"
| "process_stock numstr tag label sessionId now (fruit # fruits) s =
     (case upsert_fruit numstr tag label sessionId now fruit s of
        None \<Rightarrow> Inl s
      | Some s' \<Rightarrow> process_stock numstr tag label sessionId now fruits s')"

text \<open>\<^verbatim>\<open>body.normalStock && Array.isArray(body.normalStock)\<close>: the elements to loop over.\<close>

fun stock_array :: "'n jsval \<Rightarrow> 'n json list" where
  "stock_array (Some (JArr fruits)) = fruits"
| "stock_array _ = []"

definition is_session_batch :: "'n::zero_neq_one json \<Rightarrow> bool" where
  "is_session_batch b =
     (truthy_val (property b ''sessionId'') \<and>
      (truthy_val (property b ''normalStock'') \<or> truthy_val (property b ''mirageStock'')))"

text \<open>
  \<open>t0\<close> and \<open>t1\<close> are the first two readings of the clock in a POST: the session
  branch reads it once (\<open>t0\<close>, its \<^verbatim>\<open>now\<close>), the generic branch once for the id
  (\<open>t0\<close>) and once for the time stamps (\<open>t1\<close>, its \<^verbatim>\<open>now\<close>). A body that is
  \<^verbatim>\<open>null\<close> throws at \<^verbatim>\<open>body.sessionId\<close>.
\<close>

text \<open>
  The first branch of POST (\<^verbatim>\<open>// Handle Roblox script data structure\<close>), entered
  when \<open>is_session_batch\<close> holds, so that \<^verbatim>\<open>body.sessionId\<close> is defined.
\<close>

definition POST_session ::
  "('n \<Rightarrow> string) \<Rightarrow> 'n::zero_neq_one json \<Rightarrow> int \<Rightarrow> 'n store \<Rightarrow> 'n response \<times> 'n store" where
  "POST_session numstr b now s =
     (case property b ''sessionId'' of
        None \<Rightarrow> (failure 500 ''Internal server error'', s)
      | Some sessionId \<Rightarrow>
         (case process_stock numstr ''normal'' ''Normal'' sessionId now
                 (stock_array (property b ''normalStock'')) s of
            Inl s1 \<Rightarrow> (failure 500 ''Internal server error'', s1)
          | Inr s1 \<Rightarrow>
             (case process_stock numstr ''mirage'' ''Mirage'' sessionId now
                     (stock_array (property b ''mirageStock'')) s1 of
                Inl s2 \<Rightarrow> (failure 500 ''Internal server error'', s2)
              | Inr s2 \<Rightarrow> (\<lparr>status = 201, body = BatchSummary sessionId now\<rparr>, s2))))"

text \<open>The second branch (\<^verbatim>\<open>// Handle simple stock data (original format)\<close>).\<close>

definition POST_generic ::
  "'n::zero_neq_one json \<Rightarrow> int \<Rightarrow> int \<Rightarrow> 'n store \<Rightarrow> 'n response \<times> 'n store" where
  "POST_generic b t0 t1 s =
     (if \<not> truthy_val (property b ''name'') \<or> \<not> is_number (property b ''price'')
         \<or> \<not> is_number (property b ''quantity'')
      then (failure 400 ''Bad request'', s)
      else
        (case (property b ''name'', property b ''price'', property b ''quantity'') of
           (Some (JStr nm), Some p, Some q) \<Rightarrow>
             let newStock =
                   \<lparr>id' = normalize_name nm @ ''-'' @ show_int t0,
                    name = JStr nm, price = p, quantity = q,
                    lastUpdated = t1, createdAt = t1\<rparr>
             in (\<lparr>status = 201, body = Created newStock\<rparr>, store_set (id' newStock) newStock s)
         | _ \<Rightarrow> (failure 500 ''Internal server error'', s)))"

definition POST ::
  "('n \<Rightarrow> string) \<Rightarrow> 'n::zero_neq_one request \<Rightarrow> int \<Rightarrow> int \<Rightarrow> 'n store \<Rightarrow> 'n response \<times> 'n store" where
  "POST numstr request t0 t1 s =
     (case authorize request ''POST'' of
        Some authError \<Rightarrow> (authError, s)
      | None \<Rightarrow>
         (case json_body request of
            None \<Rightarrow> (failure 500 ''Internal server error'', s)
          | Some b \<Rightarrow>
              if b = JNull then (failure 500 ''Internal server error'', s)
              else if is_session_batch b then POST_session numstr b t0 s
              else POST_generic b t0 t1 s))"

section \<open>PUT\<close>

text \<open>
  The 404 answer of PUT and PATCH for the \<^verbatim>\<open>id\<close> of a body: its message is the
  template \<^verbatim>\<open>`Stock with id ${id} not found`\<close>, whose string conversion of
  \<^verbatim>\<open>id\<close> can throw, which answers 500.
\<close>

definition not_found :: "'n jsval \<Rightarrow> 'n response" where
  "not_found i =
     (case i of
        None \<Rightarrow> failure 404 ''Not found''
      | Some j \<Rightarrow>
          if can_stringify j then failure 404 ''Not found''
          else failure 500 ''Internal server error'')"

definition PUT :: "'n::zero_neq_one request \<Rightarrow> int \<Rightarrow> 'n store \<Rightarrow> 'n response \<times> 'n store" where
  "PUT request now s =
     (case authorize request ''PUT'' of
        Some authError \<Rightarrow> (authError, s)
      | None \<Rightarrow>
         (case json_body request of
            None \<Rightarrow> (failure 500 ''Internal server error'', s)
          | Some b \<Rightarrow>
              if b = JNull then (failure 500 ''Internal server error'', s)
              else if \<not> truthy_val (property b ''id'') then (failure 400 ''Bad request'', s)
              else
                (case property b ''id'' of
                   Some (JStr k) \<Rightarrow>
                     (case map_of s k of
                        None \<Rightarrow> (failure 404 ''Not found'', s)
                      | Some existingStock \<Rightarrow>
                          let updatedStock = existingStock
                                \<lparr>name := coalesce (property b ''name'') (name existingStock),
                                 price := coalesce (property b ''price'') (price existingStock),
                                 quantity := coalesce (property b ''quantity'') (quantity existingStock),
                                 lastUpdated := now\<rparr>
                          in (\<lparr>status = 200, body = Updated updatedStock\<rparr>,
                              store_set k updatedStock s))
                 | _ \<Rightarrow> (not_found (property b ''id''), s))))"

section \<open>DELETE\<close>

text \<open>The session loop: the store and \<^verbatim>\<open>deletedCount\<close>.\<close>

definition delete_session :: "string \<Rightarrow> 'n store \<Rightarrow> 'n store \<times> nat" where
  "delete_session sfx s =
     fold (\<lambda>(key, stock) (m, deletedCount).
             if string_includes key sfx then (store_delete key m, deletedCount + 1)
             else (m, deletedCount)) s (s, 0)"

definition DELETE ::
  "('n \<Rightarrow> string) \<Rightarrow> 'n::zero_neq_one request \<Rightarrow> 'n store \<Rightarrow> 'n response \<times> 'n store" where
  "DELETE numstr request s =
     (case authorize request ''DELETE'' of
        Some authError \<Rightarrow> (authError, s)
      | None \<Rightarrow>
         (case id_param request of
            Some (c # cs) \<Rightarrow>
              (case map_of s (c # cs) of
                 None \<Rightarrow> (failure 404 ''Not found'', s)
               | Some existingStock \<Rightarrow>
                   (\<lparr>status = 200, body = Deleted existingStock\<rparr>, store_delete (c # cs) s))
          | _ \<Rightarrow>
              (case json_body request of
                 None \<Rightarrow> (failure 400 ''Bad request'', s)
               | Some b \<Rightarrow>
                   if b = JNull then (failure 400 ''Bad request'', s)
                   else
                     (case property b ''sessionId'' of
                        None \<Rightarrow> (failure 400 ''Bad request'', s)
                      | Some sessionId \<Rightarrow>
                          if truthy sessionId then
                            (case slice8_string numstr sessionId of
                               None \<Rightarrow> (failure 400 ''Bad request'', s)
                             | Some sfx \<Rightarrow>
                                 (case delete_session sfx s of
                                    (s', deletedCount) \<Rightarrow>
                                      (\<lparr>status = 200,
                                        body = SessionCleaned sfx deletedCount
                                                 (or_else (property b ''reason'') (JStr ''unknown''))\<rparr>,
                                       s')))
                          else (failure 400 ''Bad request'', s)))))"

section \<open>PATCH\<close>

definition PATCH :: "'n::zero_neq_one request \<Rightarrow> int \<Rightarrow> 'n store \<Rightarrow> 'n response \<times> 'n store" where
  "PATCH request now s =
     (case authorize request ''PATCH'' of
        Some authError \<Rightarrow> (authError, s)
      | None \<Rightarrow>
         (case json_body request of
            None \<Rightarrow> (failure 500 ''Internal server error'', s)
          | Some b \<Rightarrow>
              if b = JNull then (failure 500 ''Internal server error'', s)
              else if \<not> truthy_val (property b ''id'') then (failure 400 ''Bad request'', s)
              else
                (case property b ''id'' of
                   Some (JStr k) \<Rightarrow>
                     (case map_of s k of
                        None \<Rightarrow> (failure 404 ''Not found'', s)
                      | Some existingStock \<Rightarrow>
                          let existingStock' = existingStock\<lparr>lastUpdated := now\<rparr>
                          in (\<lparr>status = 200, body = Pinged (lastUpdated existingStock')\<rparr>,
                              store_set k existingStock' s))
                 | _ \<Rightarrow> (not_found (property b ''id''), s))))"

section \<open>Notions used to state the properties\<close>

text \<open>The entries a response carries.\<close>

fun response_entries :: "'n payload \<Rightarrow> 'n StockData list" where
  "response_entries (Stock stock access) = [stock]"
| "response_entries (Stocks allStocks n t access note) = allStocks"
| "response_entries (Created stock) = [stock]"
| "response_entries (Updated stock) = [stock]"
| "response_entries (Deleted stock) = [stock]"
| "response_entries _ = []"

text \<open>A payload without the fields that GET adds under public access.\<close>

fun without_access :: "'n payload \<Rightarrow> 'n payload" where
  "without_access (Stock stock access) = Stock stock None"
| "without_access (Stocks allStocks n t access note) = Stocks allStocks n t None None"
| "without_access p = p"

text \<open>
  The elements of a category array, by the test of the loop
  \<^verbatim>\<open>fruit.name && typeof fruit.price === "number"\<close>: an element that fails it (it
  misses a name, or its price is not a number), and an element that passes it with a
  name that is a string. \<open>fruit_of\<close> is the entry the loop builds for the latter.
\<close>

definition skipped_fruit :: "'n::zero_neq_one json \<Rightarrow> bool" where
  "skipped_fruit fruit =
     (fruit \<noteq> JNull \<and> \<not> (truthy_val (property fruit ''name'') \<and> is_number (property fruit ''price'')))"

definition fruit_of ::
  "string \<Rightarrow> string \<Rightarrow> string \<Rightarrow> int \<Rightarrow> 'n::zero_neq_one json \<Rightarrow> 'n StockData option" where
  "fruit_of tag label sfx now fruit =
     (case (property fruit ''name'', property fruit ''price'') of
        (Some (JStr nm), Some (JNum p)) \<Rightarrow>
          if nm = [] then None else Some (fruit_entry tag label nm p sfx now)
      | _ \<Rightarrow> None)"

definition valid_fruit :: "'n::zero_neq_one json \<Rightarrow> bool" where
  "valid_fruit fruit = (fruit_of [] [] [] 0 fruit \<noteq> None)"

definition store_fruit ::
  "string \<Rightarrow> string \<Rightarrow> string \<Rightarrow> int \<Rightarrow> 'n::zero_neq_one json \<Rightarrow> 'n store \<Rightarrow> 'n store" where
  "store_fruit tag label sfx now fruit s =
     (case fruit_of tag label sfx now fruit of
        None \<Rightarrow> s
      | Some stockData \<Rightarrow> store_set (id' stockData) stockData s)"

text \<open>Requests that carry the shared secret, and the public read.\<close>

definition authed :: "string option \<Rightarrow> 'n json option \<Rightarrow> 'n request" where
  "authed i b = \<lparr>key_param = None, id_param = i, authorization = Some ''GAMERSBERG'', json_body = b\<rparr>"

definition public_read :: "string option \<Rightarrow> 'n request" where
  "public_read i = \<lparr>key_param = Some ''status'', id_param = i, authorization = None, json_body = None\<rparr>"

subsection \<open>Example data\<close>

definition fruit :: "string \<Rightarrow> int \<Rightarrow> int json" where
  "fruit nm p = JObj [(''name'', JStr nm), (''price'', JNum p)]"

definition apple_banana :: "int json" where
  "apple_banana =
     JObj [(''sessionId'', JStr ''abcdefgh12345678''),
           (''normalStock'', JArr [fruit ''Apple'' 100]),
           (''mirageStock'', JArr [fruit ''Banana'' 200])]"

definition spaced_batch :: "int json" where
  "spaced_batch =
     JObj [(''sessionId'', JStr ''abcdefgh12345678''),
           (''normalStock'', JArr [fruit ''Dark  Blade'' 100]),
           (''mirageStock'', JArr [fruit '' Dragon Fruit X '' 200])]"

definition null_batch :: "int json" where
  "null_batch =
     JObj [(''sessionId'', JStr ''abcdefgh12345678''),
           (''normalStock'', JArr [fruit ''Apple'' 100, JNull, fruit ''Banana'' 200])]"

definition numeric_name_batch :: "int json" where
  "numeric_name_batch =
     JObj [(''sessionId'', JStr ''abcdefgh12345678''),
           (''normalStock'',
              JArr [fruit ''Apple'' 100, JObj [(''name'', JNum 5), (''price'', JNum 1)]])]"

definition mixed_batch :: "int json" where
  "mixed_batch =
     JObj [(''sessionId'', JStr ''abcdefgh12345678''),
           (''normalStock'',
              JArr [JObj [(''price'', JStr ''not-a-number'')], fruit ''Apple'' 100,
                    JObj [(''name'', JStr ''Kiwi'')]]),
           (''mirageStock'', JArr [fruit ''Banana'' 200])]"

definition sample :: "string \<Rightarrow> int \<Rightarrow> int StockData" where
  "sample k t = \<lparr>id' = k, name = JStr ''Apple (Normal)'', price = JNum 100, quantity = JNum 1,
                 lastUpdated = t, createdAt = t\<rparr>"

section \<open>Properties of the string operations\<close>

lemma those_None_iff: "those xs = None \<longleftrightarrow> None \<in> set xs"
  by (induction xs) (auto split: option.splits)

lemma element_string_None:
  "(case x of JNull \<Rightarrow> Some [] | _ \<Rightarrow> to_string numstr x) = None \<longleftrightarrow> to_string numstr x = None"
  by (cases x) simp_all

lemma to_string_None_iff: "to_string numstr j = None \<longleftrightarrow> \<not> can_stringify j"
proof (induction j)
  case (JArr xs)
  let ?f = "\<lambda>x. case x of JNull \<Rightarrow> Some [] | _ \<Rightarrow> to_string numstr x"
  have "those (map ?f xs) = None \<longleftrightarrow> (\<exists>x \<in> set xs. ?f x = None)"
    unfolding those_None_iff by (simp add: image_iff) metis
  also have "\<dots> \<longleftrightarrow> (\<exists>x \<in> set xs. to_string numstr x = None)"
    unfolding element_string_None ..
  also have "\<dots> \<longleftrightarrow> (\<exists>x \<in> set xs. \<not> can_stringify x)"
    using JArr by blast
  finally show ?case by simp
next
  case (JObj kvs)
  show ?case by (simp split: option.splits)
qed simp_all

lemma is_space_dash: "\<not> is_space CHR ''-''"
  by (simp add: is_space_def)

lemma is_space_toLowerCase_char: "is_space (toLowerCase_char c) = is_space c"
  by (auto simp: is_space_def toLowerCase_char_def Let_def)

lemma replace_spaces_no_space: "c \<in> set (replace_spaces x) \<Longrightarrow> \<not> is_space c"
  by (induction x rule: replace_spaces.induct) (auto simp: is_space_dash split: if_splits)

lemma replace_spaces_id: "\<forall>c \<in> set x. \<not> is_space c \<Longrightarrow> replace_spaces x = x"
  by (induction x) auto

lemma replace_spaces_append:
  "\<not> is_space a \<Longrightarrow> replace_spaces (x @ a # y) = replace_spaces x @ a # replace_spaces y"
proof (induction x rule: replace_spaces.induct)
  case 1
  then show ?case by simp
next
  case (2 c cs)
  show ?case
  proof (cases "is_space c")
    case True
    have "dropWhile is_space (cs @ a # y) = dropWhile is_space cs @ a # y"
      using "2.prems" by (induction cs) auto
    with True 2 show ?thesis by simp
  next
    case False
    with 2 show ?thesis by simp
  qed
qed

lemma replace_spaces_run:
  "ws \<noteq> [] \<Longrightarrow> \<forall>c \<in> set ws. is_space c \<Longrightarrow> replace_spaces ws = ''-''"
proof -
  assume ws: "ws \<noteq> []" and sp: "\<forall>c \<in> set ws. is_space c"
  then obtain c cs where c: "ws = c # cs" by (cases ws) auto
  with sp have d: "dropWhile is_space cs = []"
    by (simp add: dropWhile_eq_Nil_conv)
  from c sp show ?thesis by (simp add: d)
qed

lemma toLowerCase_alphabet:
  "toLowerCase ''ABCDEFGHIJKLMNOPQRSTUVWXYZ'' = ''abcdefghijklmnopqrstuvwxyz''"
  by code_simp

lemma toLowerCase_append: "toLowerCase (x @ y) = toLowerCase x @ toLowerCase y"
  by (simp add: toLowerCase_def)

lemma toLowerCase_others:
  "toLowerCase ''abcdefghijklmnopqrstuvwxyz 0123456789-_()''
     = ''abcdefghijklmnopqrstuvwxyz 0123456789-_()''"
  by code_simp

lemma is_space_iff:
  "is_space c \<longleftrightarrow>
     c \<in> set [CHR 0x09, CHR 0x0A, CHR 0x0B, CHR 0x0C, CHR 0x0D, CHR 0x20, CHR 0xA0]"
proof -
  have e: "(c = d) = ((of_char c :: nat) = of_char d)" for d
    by (simp add: of_char_eq_iff)
  show ?thesis
    unfolding is_space_def by (simp add: e)
qed

section \<open>Properties of the store operations\<close>

lemma map_of_store_set: "map_of (store_set k v s) = (map_of s)(k \<mapsto> v)"
  by (induction s) (auto simp: fun_eq_iff)

lemma keys_store_set:
  "map fst (store_set k v s) = (if k \<in> fst ` set s then map fst s else map fst s @ [k])"
  by (induction s) auto

lemma set_store_set_subset: "set (store_set k v s) \<subseteq> insert (k, v) (set s)"
  by (induction s) auto

lemma is_map_store_set: "is_map s \<Longrightarrow> is_map (store_set k v s)"
  by (simp add: is_map_def keys_store_set)

lemma is_map_store_delete: "is_map s \<Longrightarrow> is_map (store_delete k s)"
  by (simp add: is_map_def store_delete_def distinct_map_filter)

lemma map_of_store_delete: "map_of (store_delete k s) = (map_of s)(k := None)"
  by (induction s) (auto simp: store_delete_def fun_eq_iff)

lemma store_set_present:
  "map_of s k = Some d \<Longrightarrow> f (k, v) = f (k, d) \<Longrightarrow> map f (store_set k v s) = map f s"
  by (induction s) (auto split: if_splits)

lemma fold_delete:
  "fold (\<lambda>(key, data) m. if P data then store_delete key m else m) xs m
     = filter (\<lambda>e. fst e \<notin> fst ` {x \<in> set xs. P (snd x)}) m"
proof (induction xs arbitrary: m)
  case Nil
  then show ?case by simp
next
  case (Cons x xs)
  obtain k d where x: "x = (k, d)" by (cases x)
  have *: "fst ` {y \<in> set (x # xs). P (snd y)} =
        (if P d then insert k (fst ` {y \<in> set xs. P (snd y)}) else fst ` {y \<in> set xs. P (snd y)})"
    by (auto simp: x image_iff)
  show ?case
    unfolding * by (auto simp: x Cons.IH store_delete_def intro!: filter_cong)
qed

lemma cleanup_keys:
  "cleanupExpiredData now s = filter (\<lambda>e. fst e \<notin> fst ` {x \<in> set s. expired now (snd x)}) s"
  by (simp add: cleanupExpiredData_def fold_delete)

lemma cleanup_filter:
  "is_map s \<Longrightarrow> cleanupExpiredData now s = filter (\<lambda>e. \<not> expired now (snd e)) s"
  unfolding cleanup_keys is_map_def
  by (rule filter_cong) (auto simp: image_iff dest: eq_key_imp_eq_value)

lemma cleanup_not_expired: "e \<in> set (cleanupExpiredData now s) \<Longrightarrow> \<not> expired now (snd e)"
  by (auto simp: cleanup_keys image_iff)

lemma is_map_cleanup: "is_map s \<Longrightarrow> is_map (cleanupExpiredData now s)"
  by (simp add: cleanup_keys is_map_def distinct_map_filter)

lemma fold_delete_session:
  "fold (\<lambda>(key, stock) (m, deletedCount).
             if Q key then (store_delete key m, deletedCount + 1)
             else (m, deletedCount)) xs (m, n)
    = (filter (\<lambda>e. fst e \<notin> {k \<in> fst ` set xs. Q k}) m, n + length (filter (\<lambda>e. Q (fst e)) xs))"
proof (induction xs arbitrary: m n)
  case Nil
  then show ?case by simp
next
  case (Cons x xs)
  obtain k d where x: "x = (k, d)" by (cases x)
  show ?case
    by (auto simp: x Cons.IH store_delete_def intro!: filter_cong)
qed

lemma delete_session_eq:
  "delete_session sfx s =
     (filter (\<lambda>e. \<not> string_includes (fst e) sfx) s,
      length (filter (\<lambda>e. string_includes (fst e) sfx) s))"
  unfolding delete_session_def fold_delete_session
  by (auto intro!: filter_cong)

lemma string_includes_iff: "string_includes key sub \<longleftrightarrow> (\<exists>p q. key = p @ sub @ q)"
  by (simp add: string_includes_def sublist_def)

lemma authorize_secret:
  "authorization request = Some ''GAMERSBERG'' \<Longrightarrow> authorize request method = None"
  by (simp add: authorize_def Let_def)

lemma authorize_Some:
  "authorize request method = Some r \<Longrightarrow> r = failure 401 ''Unauthorized''"
  by (auto simp: authorize_def Let_def split: if_splits option.splits)

lemma DATA_EXPIRY_ms: "DATA_EXPIRY = 600000"
  by (simp add: DATA_EXPIRY_def)

section \<open>Properties of the handlers\<close>

lemma property_not_null: "property b f = Some v \<Longrightarrow> b \<noteq> JNull"
  by (cases b) auto

lemma upsert_fruit_entries:
  "upsert_fruit numstr tag label sessionId now f s = Some s' \<Longrightarrow> e \<in> set s' \<Longrightarrow>
     e \<in> set s \<or> (createdAt (snd e) = now \<and> lastUpdated (snd e) = now)"
  using set_store_set_subset
  by (fastforce simp: upsert_fruit_def fruit_entry_def Let_def
        split: if_splits option.splits json.splits)

lemma process_stock_entries:
  "process_stock numstr tag label sessionId now fs s = r \<Longrightarrow>
     e \<in> set (case r of Inl s' \<Rightarrow> s' | Inr s' \<Rightarrow> s') \<Longrightarrow>
     e \<in> set s \<or> (createdAt (snd e) = now \<and> lastUpdated (snd e) = now)"
proof (induction fs arbitrary: s)
  case Nil
  then show ?case by auto
next
  case (Cons f fs)
  show ?case
  proof (cases "upsert_fruit numstr tag label sessionId now f s")
    case None
    with Cons.prems show ?thesis by auto
  next
    case (Some s')
    with Cons.prems have "process_stock numstr tag label sessionId now fs s' = r" by simp
    from Cons.IH [OF this Cons.prems(2)] upsert_fruit_entries [OF Some]
    show ?thesis by blast
  qed
qed

lemma post_session_entries:
  assumes "e \<in> set (snd (POST_session numstr b now s))"
  shows "e \<in> set s \<or> (createdAt (snd e) = now \<and> lastUpdated (snd e) = now)"
proof (cases "property b ''sessionId''")
  case None
  with assms show ?thesis by (simp add: POST_session_def)
next
  case (Some sid)
  show ?thesis
  proof (cases "process_stock numstr ''normal'' ''Normal'' sid now (stock_array (property b ''normalStock'')) s")
    case (Inl s1)
    with assms Some have "e \<in> set s1" by (simp add: POST_session_def)
    with process_stock_entries [OF Inl, of e] show ?thesis by simp
  next
    case (Inr s1)
    have first: "e \<in> set s1 \<Longrightarrow> ?thesis"
      using process_stock_entries [OF Inr, of e] by simp
    obtain r where r: "process_stock numstr ''mirage'' ''Mirage'' sid now (stock_array (property b ''mirageStock'')) s1 = r"
      by simp
    have "e \<in> set (case r of Inl s' \<Rightarrow> s' | Inr s' \<Rightarrow> s')"
      using assms Some Inr r by (auto simp: POST_session_def split: sum.splits)
    from process_stock_entries [OF r this] first show ?thesis by blast
  qed
qed

lemma post_generic_entries:
  assumes "e \<in> set (snd (POST_generic b t0 t1 s))"
  shows "e \<in> set s \<or> (createdAt (snd e) = t1 \<and> lastUpdated (snd e) = t1)"
proof -
  have gen: "e \<in> set s \<or> (createdAt (snd e) = t1 \<and> lastUpdated (snd e) = t1)"
    if "e \<in> set (store_set k \<lparr>id' = k, name = n, price = p, quantity = q, lastUpdated = t1, createdAt = t1\<rparr> s)"
    for k n p q
    using that set_store_set_subset by fastforce
  show ?thesis
    using assms gen
    by (auto simp: POST_generic_def Let_def split: if_splits option.splits json.splits)
qed

lemma post_entries:
  assumes "e \<in> set (snd (POST numstr request t0 t1 s))"
  shows "e \<in> set s \<or> (createdAt (snd e) = lastUpdated (snd e)
            \<and> (createdAt (snd e) = t0 \<or> createdAt (snd e) = t1))"
  using assms post_session_entries [of e numstr _ t0 s] post_generic_entries [of e _ t0 t1 s]
  by (auto simp: POST_def split: option.splits if_splits)

lemma put_keeps_keys_and_createdAt:
  "map (\<lambda>e. (fst e, createdAt (snd e))) (snd (PUT request now s))
     = map (\<lambda>e. (fst e, createdAt (snd e))) s"
  by (auto simp: PUT_def Let_def split: option.splits json.splits intro!: store_set_present)

lemma patch_keeps_keys_and_createdAt:
  "map (\<lambda>e. (fst e, createdAt (snd e))) (snd (PATCH request now s))
     = map (\<lambda>e. (fst e, createdAt (snd e))) s"
  by (auto simp: PATCH_def Let_def split: option.splits json.splits intro!: store_set_present)



lemma fruit_of_valid: "fruit_of tag label sfx now f \<noteq> None \<longleftrightarrow> valid_fruit f"
  by (auto simp: fruit_of_def valid_fruit_def split: option.splits json.splits)

lemma fruit_of_skipped: "skipped_fruit f \<Longrightarrow> fruit_of tag label sfx now f = None"
  by (auto simp: fruit_of_def skipped_fruit_def truthy_val_def split: option.splits json.splits)

lemma store_fruit_invalid: "\<not> valid_fruit f \<Longrightarrow> store_fruit tag label sfx now f s = s"
  using fruit_of_valid [of tag label sfx now f] by (simp add: store_fruit_def)

lemma upsert_fruit_string_session:
  assumes "skipped_fruit f \<or> valid_fruit f"
  shows "upsert_fruit numstr tag label (JStr sid) now f s
           = Some (store_fruit tag label (slice8 sid) now f s)"
proof (cases "valid_fruit f")
  case True
  then obtain e where e: "fruit_of tag label (slice8 sid) now f = Some e"
    using fruit_of_valid [of tag label "slice8 sid" now f] by auto
  then have "f \<noteq> JNull"
    by (auto simp: fruit_of_def)
  with e show ?thesis
    by (auto simp: upsert_fruit_def store_fruit_def fruit_of_def truthy_val_def Let_def
          split: option.splits json.splits if_splits)
next
  case False
  with assms have sk: "skipped_fruit f" by simp
  then have "f \<noteq> JNull" "\<not> (truthy_val (property f ''name'') \<and> is_number (property f ''price''))"
    by (simp_all add: skipped_fruit_def)
  with sk show ?thesis
    by (auto simp: upsert_fruit_def store_fruit_def fruit_of_skipped)
qed

lemma process_stock_string_session:
  "\<forall>f \<in> set fs. skipped_fruit f \<or> valid_fruit f \<Longrightarrow>
     process_stock numstr tag label (JStr sid) now fs s
       = Inr (fold (store_fruit tag label (slice8 sid) now) fs s)"
  by (induction fs arbitrary: s) (simp_all add: upsert_fruit_string_session)

lemma fold_store_fruit_valid:
  "fold (store_fruit tag label sfx now) (filter valid_fruit fs) s
     = fold (store_fruit tag label sfx now) fs s"
  by (induction fs arbitrary: s) (simp_all add: store_fruit_invalid)

lemma keys_store_fruit:
  "fst ` set (store_fruit tag label sfx now f s)
     = fst ` set s \<union> id' ` set_option (fruit_of tag label sfx now f)"
proof -
  have "fst ` set (store_set k v s) = insert k (fst ` set s)" for k and v :: "'a StockData"
    using keys_store_set [of k v s, THEN arg_cong, of set] by (auto split: if_splits)
  then show ?thesis
    by (simp add: store_fruit_def split: option.splits)
qed

lemma keys_fold_store_fruit:
  "fst ` set (fold (store_fruit tag label sfx now) fs s)
     = fst ` set s \<union> id' ` (\<Union>f \<in> set fs. set_option (fruit_of tag label sfx now f))"
  by (induction fs arbitrary: s) (auto simp: keys_store_fruit)

subsection \<open>A batch stamps the entries it stores\<close>

lemma createdAt_fruit_entry: "createdAt (fruit_entry tag label nm p sfx now) = now"
  by (simp add: fruit_entry_def)

lemma createdAt_fruit_of: "fruit_of tag label sfx now f = Some e \<Longrightarrow> createdAt e = now"
  by (auto simp: fruit_of_def createdAt_fruit_entry split: option.splits json.splits if_splits)

lemma upsert_fruit_cases:
  assumes "upsert_fruit numstr tag label sessionId now f s = Some s'"
  shows "(fruit_of tag label (the (slice8_string numstr sessionId)) now f = None \<and> s' = s)
       \<or> (\<exists>e sfx. slice8_string numstr sessionId = Some sfx
             \<and> fruit_of tag label sfx now f = Some e \<and> s' = store_set (id' e) e s)"
  using assms
  by (auto simp: upsert_fruit_def fruit_of_def truthy_val_def Let_def
        split: if_splits option.splits json.splits)

lemma upsert_fruit_stamps:
  assumes "upsert_fruit numstr tag label sessionId now f s = Some s'"
    and "slice8_string numstr sessionId = Some sfx"
    and "fruit_of tag label sfx now f = Some e"
  shows "map_of s' (id' e) = Some e"
  using upsert_fruit_cases [OF assms(1)] assms(2,3) by (auto simp: map_of_store_set)

lemma upsert_fruit_keeps_stamp:
  assumes "upsert_fruit numstr tag label sessionId now f s = Some s'"
    and "map_option createdAt (map_of s k) = Some now"
  shows "map_option createdAt (map_of s' k) = Some now"
  using upsert_fruit_cases [OF assms(1)] assms(2)
  by (auto simp: map_of_store_set createdAt_fruit_of)

lemma process_stock_keeps_stamp:
  "process_stock numstr tag label sessionId now fs s = Inr s' \<Longrightarrow>
     map_option createdAt (map_of s k) = Some now \<Longrightarrow>
     map_option createdAt (map_of s' k) = Some now"
proof (induction fs arbitrary: s)
  case Nil
  then show ?case by simp
next
  case (Cons f fs)
  then obtain s1 where s1: "upsert_fruit numstr tag label sessionId now f s = Some s1"
    and rest: "process_stock numstr tag label sessionId now fs s1 = Inr s'"
    by (auto split: option.splits)
  from Cons.IH [OF rest upsert_fruit_keeps_stamp [OF s1 Cons.prems(2)]] show ?case .
qed

lemma process_stock_stamps:
  "process_stock numstr tag label sessionId now fs s = Inr s' \<Longrightarrow>
     slice8_string numstr sessionId = Some sfx \<Longrightarrow>
     f \<in> set fs \<Longrightarrow> fruit_of tag label sfx now f = Some e \<Longrightarrow>
     map_option createdAt (map_of s' (id' e)) = Some now"
proof (induction fs arbitrary: s)
  case Nil
  then show ?case by simp
next
  case (Cons g fs)
  then obtain s1 where s1: "upsert_fruit numstr tag label sessionId now g s = Some s1"
    and rest: "process_stock numstr tag label sessionId now fs s1 = Inr s'"
    by (auto split: option.splits)
  show ?case
  proof (cases "f = g")
    case True
    have "map_of s1 (id' e) = Some e"
      using upsert_fruit_stamps [OF s1 Cons.prems(2)] Cons.prems(4) True by simp
    then have "map_option createdAt (map_of s1 (id' e)) = Some now"
      using createdAt_fruit_of [OF Cons.prems(4)] by simp
    from process_stock_keeps_stamp [OF rest this] show ?thesis .
  next
    case False
    with Cons.prems(3) have "f \<in> set fs" by simp
    from Cons.IH [OF rest Cons.prems(2) this Cons.prems(4)] show ?thesis .
  qed
qed

lemma post_session_201:
  assumes "status (fst (POST_session numstr b now s)) = 201"
    and "property b ''sessionId'' = Some sessionId"
  obtains s1 where
    "process_stock numstr ''normal'' ''Normal'' sessionId now (stock_array (property b ''normalStock'')) s = Inr s1"
    "process_stock numstr ''mirage'' ''Mirage'' sessionId now (stock_array (property b ''mirageStock'')) s1
       = Inr (snd (POST_session numstr b now s))"
  using assms
  by (auto simp: POST_session_def failure_def split: sum.splits)

lemma post_session_stamps:
  assumes "status (fst (POST_session numstr b now s)) = 201"
    and "property b ''sessionId'' = Some (JStr sid)"
  shows "f \<in> set (stock_array (property b ''normalStock'')) \<Longrightarrow>
           fruit_of ''normal'' ''Normal'' (slice8 sid) now f = Some e \<Longrightarrow>
           map_option createdAt (map_of (snd (POST_session numstr b now s)) (id' e)) = Some now"
    and "f \<in> set (stock_array (property b ''mirageStock'')) \<Longrightarrow>
           fruit_of ''mirage'' ''Mirage'' (slice8 sid) now f = Some e \<Longrightarrow>
           map_option createdAt (map_of (snd (POST_session numstr b now s)) (id' e)) = Some now"
proof -
  from assms obtain s1 where
    n: "process_stock numstr ''normal'' ''Normal'' (JStr sid) now (stock_array (property b ''normalStock'')) s = Inr s1"
    and m: "process_stock numstr ''mirage'' ''Mirage'' (JStr sid) now (stock_array (property b ''mirageStock'')) s1
       = Inr (snd (POST_session numstr b now s))"
    by (rule post_session_201)
  have sl: "slice8_string numstr (JStr sid) = Some (slice8 sid)" by simp
  show "map_option createdAt (map_of (snd (POST_session numstr b now s)) (id' e)) = Some now"
    if "f \<in> set (stock_array (property b ''normalStock''))"
      and "fruit_of ''normal'' ''Normal'' (slice8 sid) now f = Some e"
    using process_stock_keeps_stamp [OF m process_stock_stamps [OF n sl that]] .
  show "map_option createdAt (map_of (snd (POST_session numstr b now s)) (id' e)) = Some now"
    if "f \<in> set (stock_array (property b ''mirageStock''))"
      and "fruit_of ''mirage'' ''Mirage'' (slice8 sid) now f = Some e"
    using process_stock_stamps [OF m sl that] .
qed

lemma post_is_session:
  "authorization request = Some ''GAMERSBERG'' \<Longrightarrow> json_body request = Some b \<Longrightarrow>
     is_session_batch b \<Longrightarrow> property b ''sessionId'' = Some sessionId \<Longrightarrow>
     POST numstr request t0 t1 s = POST_session numstr b t0 s"
  using property_not_null [of b "''sessionId''" sessionId]
  by (simp add: POST_def authorize_secret)

subsection \<open>The handlers keep the store a Map without the empty key\<close>

lemma keys_store_set_set: "fst ` set (store_set k v s) = insert k (fst ` set s)"
  using keys_store_set [of k v s, THEN arg_cong, of set] by (auto split: if_splits)

lemma store_ok_set: "store_ok s \<Longrightarrow> k \<noteq> [] \<Longrightarrow> store_ok (store_set k v s)"
  by (simp add: store_ok_def is_map_store_set keys_store_set_set)

lemma store_ok_filter: "store_ok s \<Longrightarrow> store_ok (filter P s)"
  by (auto simp: store_ok_def is_map_def distinct_map_filter)

lemma store_ok_upsert_fruit:
  "store_ok s \<Longrightarrow> upsert_fruit numstr tag label sessionId now f s = Some s' \<Longrightarrow> store_ok s'"
  by (auto simp: upsert_fruit_def fruit_entry_def Let_def intro!: store_ok_set
        split: if_splits option.splits json.splits)

lemma store_ok_process_stock:
  "store_ok s \<Longrightarrow> process_stock numstr tag label sessionId now fs s = r \<Longrightarrow>
     store_ok (case r of Inl s' \<Rightarrow> s' | Inr s' \<Rightarrow> s')"
proof (induction fs arbitrary: s)
  case Nil
  then show ?case by auto
next
  case (Cons f fs)
  show ?case
  proof (cases "upsert_fruit numstr tag label sessionId now f s")
    case None
    with Cons.prems show ?thesis by auto
  next
    case (Some s')
    with Cons.prems have "process_stock numstr tag label sessionId now fs s' = r" by simp
    from Cons.IH [OF store_ok_upsert_fruit [OF Cons.prems(1) Some] this]
    show ?thesis .
  qed
qed

lemma store_ok_POST_session:
  assumes "store_ok s"
  shows "store_ok (snd (POST_session numstr b now s))"
proof (cases "property b ''sessionId''")
  case None
  with assms show ?thesis by (simp add: POST_session_def)
next
  case (Some sid)
  show ?thesis
  proof (cases "process_stock numstr ''normal'' ''Normal'' sid now (stock_array (property b ''normalStock'')) s")
    case (Inl s1)
    with store_ok_process_stock [OF assms Inl] Some show ?thesis
      by (simp add: POST_session_def)
  next
    case (Inr s1)
    then have s1: "store_ok s1"
      using store_ok_process_stock [OF assms Inr] by simp
    obtain r where r: "process_stock numstr ''mirage'' ''Mirage'' sid now (stock_array (property b ''mirageStock'')) s1 = r"
      by simp
    from store_ok_process_stock [OF s1 r] Some Inr r show ?thesis
      by (auto simp: POST_session_def split: sum.splits)
  qed
qed

lemma store_ok_POST_generic: "store_ok s \<Longrightarrow> store_ok (snd (POST_generic b t0 t1 s))"
  by (auto simp: POST_generic_def Let_def intro!: store_ok_set
        split: if_splits option.splits json.splits)

lemma store_ok_POST: "store_ok s \<Longrightarrow> store_ok (snd (POST numstr request t0 t1 s))"
  using store_ok_POST_session store_ok_POST_generic
  by (auto simp: POST_def split: option.splits)

lemma store_ok_GET: "store_ok s \<Longrightarrow> store_ok (snd (GET request now t s))"
  by (auto simp: GET_def Let_def cleanup_keys intro!: store_ok_filter
        split: option.splits list.splits)

lemma store_ok_keys:
  assumes "map fst s' = map fst s" and "store_ok s"
  shows "store_ok s'"
proof -
  have "fst ` set s' = fst ` set s"
    using arg_cong [OF assms(1), of set] by simp
  with assms show ?thesis
    by (simp add: store_ok_def is_map_def)
qed

lemma store_ok_PUT:
  assumes "store_ok s"
  shows "store_ok (snd (PUT request now s))"
proof -
  have "map fst (snd (PUT request now s)) = map fst s"
    using put_keeps_keys_and_createdAt [of request now s, THEN arg_cong, of "map fst"]
    by (simp add: comp_def)
  then show ?thesis
    using assms by (rule store_ok_keys)
qed

lemma store_ok_PATCH:
  assumes "store_ok s"
  shows "store_ok (snd (PATCH request now s))"
proof -
  have "map fst (snd (PATCH request now s)) = map fst s"
    using patch_keeps_keys_and_createdAt [of request now s, THEN arg_cong, of "map fst"]
    by (simp add: comp_def)
  then show ?thesis
    using assms by (rule store_ok_keys)
qed

lemma store_ok_DELETE: "store_ok s \<Longrightarrow> store_ok (snd (DELETE numstr request s))"
  by (auto simp: DELETE_def delete_session_eq store_delete_def intro!: store_ok_filter
        split: option.splits list.splits)

lemma store_ok_empty: "store_ok []"
  by (simp add: store_ok_def is_map_def)

subsection \<open>Evaluations\<close>

text \<open>The example batch, posted twice.\<close>

lemma first_batch:
  "POST show_int (authed None (Some apple_banana)) 1000 1000 []
     = (\<lparr>status = 201, body = BatchSummary (JStr ''abcdefgh12345678'') 1000\<rparr>,
        [(''normal-apple-12345678'',
          \<lparr>id' = ''normal-apple-12345678'', name = JStr ''Apple (Normal)'', price = JNum 100,
           quantity = JNum 1, lastUpdated = 1000, createdAt = 1000\<rparr>),
        (''mirage-banana-12345678'',
          \<lparr>id' = ''mirage-banana-12345678'', name = JStr ''Banana (Mirage)'', price = JNum 200,
           quantity = JNum 1, lastUpdated = 1000, createdAt = 1000\<rparr>)])"
  by code_simp

lemma second_batch:
  "snd (POST show_int (authed None (Some apple_banana)) 2000 2000
          (snd (POST show_int (authed None (Some apple_banana)) 1000 1000 [])))
     = [(''normal-apple-12345678'',
          \<lparr>id' = ''normal-apple-12345678'', name = JStr ''Apple (Normal)'', price = JNum 100,
           quantity = JNum 1, lastUpdated = 2000, createdAt = 2000\<rparr>),
        (''mirage-banana-12345678'',
          \<lparr>id' = ''mirage-banana-12345678'', name = JStr ''Banana (Mirage)'', price = JNum 200,
           quantity = JNum 1, lastUpdated = 2000, createdAt = 2000\<rparr>)]"
  by code_simp

lemma second_batch_answer:
  "fst (POST show_int (authed None (Some apple_banana)) 2000 2000
          (snd (POST show_int (authed None (Some apple_banana)) 1000 1000 [])))
     = \<lparr>status = 201, body = BatchSummary (JStr ''abcdefgh12345678'') 2000\<rparr>"
  by code_simp

lemma banana_entry:
  "fruit_of ''mirage'' ''Mirage'' (slice8 ''abcdefgh12345678'') 2000 (fruit ''Banana'' 200)
     = Some \<lparr>id' = ''mirage-banana-12345678'', name = JStr ''Banana (Mirage)'', price = JNum 200,
             quantity = JNum 1, lastUpdated = 2000, createdAt = 2000\<rparr>"
  by code_simp

lemma spaced_names:
  "replace_spaces (toLowerCase ''Dark  Blade'') = ''dark-blade''"
  "replace_spaces (toLowerCase '' Dragon Fruit X '') = ''-dragon-fruit-x-''"
  by code_simp+

lemma apple_banana_names:
  "replace_spaces (toLowerCase ''Apple'') = ''apple''"
  "replace_spaces (toLowerCase ''Banana'') = ''banana''"
  by code_simp+

text \<open>A batch with two elements that fail the test of the loop.\<close>

lemma mixed_batch_elements:
  "list_all (\<lambda>f. skipped_fruit f \<or> valid_fruit f)
     (stock_array (property mixed_batch ''normalStock'')
        @ stock_array (property mixed_batch ''mirageStock''))"
  by code_simp

lemma mixed_batch_stored:
  "fold (store_fruit ''mirage'' ''Mirage'' (slice8 ''abcdefgh12345678'') 1000)
      (filter valid_fruit (stock_array (property mixed_batch ''mirageStock'')))
      (fold (store_fruit ''normal'' ''Normal'' (slice8 ''abcdefgh12345678'') 1000)
         (filter valid_fruit (stock_array (property mixed_batch ''normalStock''))) [])
     = [(''normal-apple-12345678'',
          \<lparr>id' = ''normal-apple-12345678'', name = JStr ''Apple (Normal)'', price = JNum 100,
           quantity = JNum 1, lastUpdated = 1000, createdAt = 1000\<rparr>),
        (''mirage-banana-12345678'',
          \<lparr>id' = ''mirage-banana-12345678'', name = JStr ''Banana (Mirage)'', price = JNum 200,
           quantity = JNum 1, lastUpdated = 1000, createdAt = 1000\<rparr>)]"
  by code_simp

text \<open>
  Inputs on which the handlers leave the paths above: an empty \<^verbatim>\<open>sessionId\<close>
  counts as none, a \<^verbatim>\<open>null\<close> body throws, and an id or session id whose string
  conversion throws answers 500 (400 in DELETE) where a printable one answers 404.
\<close>

lemma empty_session_id_is_absent:
  "DELETE show_int (authed None (Some (JObj [(''sessionId'', JStr [])]))) [(''a'', sample ''a'' 1)]
     = (failure 400 ''Bad request'', [(''a'', sample ''a'' 1)])"
  by (simp add: DELETE_def authed_def authorize_secret)

lemma null_body_throws:
  "POST numstr (authed None (Some JNull)) t0 t1 s = (failure 500 ''Internal server error'', s)"
  by (simp add: POST_def authed_def authorize_secret)

lemma unprintable_ids:
  "PATCH (authed None (Some (JObj [(''id'', JObj [(''toString'', JNum 1)])]))) 5
      [(''a'', sample ''a'' 1)]
     = (failure 500 ''Internal server error'', [(''a'', sample ''a'' 1)])"
  "PUT (authed None (Some (JObj [(''id'', JNum 7)]))) 5 [(''a'', sample ''a'' 1)]
     = (failure 404 ''Not found'', [(''a'', sample ''a'' 1)])"
  "DELETE show_int
      (authed None (Some (JObj [(''sessionId'', JArr [JObj [(''toString'', JNum 1)]])])))
      [(''a'', sample ''a'' 1)]
     = (failure 400 ''Bad request'', [(''a'', sample ''a'' 1)])"
  by (simp_all add: PATCH_def PUT_def DELETE_def authed_def authorize_secret truthy_val_def
        not_found_def slice8_def)

section \<open>The sweep\<close>

text \<open>
  C3. One call of the sweep at time \<open>now\<close> removes exactly the entries with
  \<open>now - lastUpdated > 600000\<close> (ten minutes, in milliseconds) and leaves every
  other entry as it was, in place, for every store that is a Map; the result is a Map
  again.
\<close>

theorem sweep_removes_exactly_expired:
  "is_map s \<Longrightarrow>
     cleanupExpiredData now s = filter (\<lambda>e. \<not> now - lastUpdated (snd e) > 600000) s
     \<and> is_map (cleanupExpiredData now s)"
  using cleanup_filter [of s now] is_map_cleanup [of s now]
  by (simp add: expired_def DATA_EXPIRY_def)

theorem sweep_removes_exactly_expired_witness:
  "is_map [(''a'', sample ''a'' 1000), (''b'', sample ''b'' 100000), (''c'', sample ''c'' 99999)]
   \<and> cleanupExpiredData 700000 [(''a'', sample ''a'' 1000), (''b'', sample ''b'' 100000), (''c'', sample ''c'' 99999)]
       = [(''b'', sample ''b'' 100000)]"
  using sweep_removes_exactly_expired
          [of "[(''a'', sample ''a'' 1000), (''b'', sample ''b'' 100000), (''c'', sample ''c'' 99999)]" 700000]
  by (simp add: is_map_def sample_def)

section \<open>Reads\<close>

text \<open>
  C2. Every GET, of all entries or of one id, answers from the store the sweep has just
  left: no entry in its response has \<open>lastUpdated\<close> more than ten minutes before
  \<open>now\<close>, and the store after an authorised GET is the swept store.
\<close>

theorem get_never_returns_expired:
  "(\<forall>d \<in> set (response_entries (body (fst (GET request now t s)))).
       \<not> now - lastUpdated d > 600000)
   \<and> (authorize request ''GET'' = None \<longrightarrow> snd (GET request now t s) = cleanupExpiredData now s)"
proof -
  have live: "\<not> now - lastUpdated (snd e) > 600000" if "e \<in> set (cleanupExpiredData now s)" for e
    using cleanup_not_expired [OF that] by (simp add: expired_def DATA_EXPIRY_def)
  have one: "\<not> now - lastUpdated d > 600000" if "map_of (cleanupExpiredData now s) k = Some d" for k d
    using live [OF map_of_SomeD [OF that]] by simp
  show ?thesis
    using live one
    by (auto simp: GET_def failure_def Let_def dest!: authorize_Some split: option.splits list.splits)
qed

theorem get_never_returns_expired_witness:
  "fst (GET (public_read None) 700000 700001
          [(''a'', sample ''a'' 1000), (''b'', sample ''b'' 100000)])
     = \<lparr>status = 200,
        body = Stocks [sample ''b'' 100000] 1 700001 (Some ''public'')
                 (Some ''Public access via ?key=status parameter'')\<rparr>
   \<and> \<not> (700000 - lastUpdated (sample ''b'' 100000) > 600000)
   \<and> fst (GET (authed (Some ''a'') None) 700000 700001
          [(''a'', sample ''a'' 1000), (''b'', sample ''b'' 100000)]) = failure 404 ''Not found''"
  using get_never_returns_expired
          [of "public_read None" 700000 700001 "[(''a'', sample ''a'' 1000), (''b'', sample ''b'' 100000)]"]
  by (simp add: GET_def authorize_def public_read_def authed_def cleanupExpiredData_def expired_def
        DATA_EXPIRY_def store_delete_def sample_def failure_def)

text \<open>
  C9. At the same instant and on the same store, a GET that carries \<^verbatim>\<open>key=status\<close>
  and a GET that carries the shared secret (and no \<^verbatim>\<open>key=status\<close>) for the same
  \<^verbatim>\<open>id\<close> parameter leave the same store and answer with the same status and the
  same entries; the payload of the public one is that of the other plus the
  \<^verbatim>\<open>access\<close> marker (and \<^verbatim>\<open>note\<close>) that GET adds.
\<close>

theorem public_and_authorised_get_agree:
  assumes "key_param pub = Some ''status''"
    and "key_param aut \<noteq> Some ''status''"
    and "authorization aut = Some ''GAMERSBERG''"
    and "id_param pub = id_param aut"
  shows "snd (GET pub now t s) = snd (GET aut now t s)
       \<and> status (fst (GET pub now t s)) = status (fst (GET aut now t s))
       \<and> response_entries (body (fst (GET pub now t s)))
           = response_entries (body (fst (GET aut now t s)))
       \<and> without_access (body (fst (GET pub now t s))) = body (fst (GET aut now t s))"
proof -
  have "authorize pub ''GET'' = None" "authorize aut ''GET'' = None"
    using assms by (simp_all add: authorize_def)
  with assms show ?thesis
    by (auto simp: GET_def Let_def failure_def split: option.splits list.splits)
qed

theorem public_and_authorised_get_agree_witness:
  "GET (public_read None) 700000 700001 [(''a'', sample ''a'' 1000), (''b'', sample ''b'' 100000)]
     = (\<lparr>status = 200,
         body = Stocks [sample ''b'' 100000] 1 700001 (Some ''public'')
                  (Some ''Public access via ?key=status parameter'')\<rparr>,
        [(''b'', sample ''b'' 100000)])
   \<and> GET (authed None None) 700000 700001 [(''a'', sample ''a'' 1000), (''b'', sample ''b'' 100000)]
     = (\<lparr>status = 200, body = Stocks [sample ''b'' 100000] 1 700001 None None\<rparr>,
        [(''b'', sample ''b'' 100000)])"
  using public_and_authorised_get_agree
          [where pub = "public_read None" and aut = "authed None None" and now = 700000
             and t = 700001 and s = "[(''a'', sample ''a'' 1000), (''b'', sample ''b'' 100000)]"]
  by (simp add: GET_def authorize_def public_read_def authed_def cleanupExpiredData_def expired_def
        DATA_EXPIRY_def store_delete_def sample_def)

section \<open>Session deletion\<close>

text \<open>
  C5. An authorised DELETE without \<^verbatim>\<open>id\<close> parameter whose body has a non-empty
  string \<^verbatim>\<open>sessionId\<close> answers 200, removes exactly the entries whose key
  includes the last eight characters of the session id, leaves the others as they
  were, and reports as \<^verbatim>\<open>deletedCount\<close> the number of entries removed.
\<close>

theorem delete_by_session:
  assumes "authorization request = Some ''GAMERSBERG''"
    and "id_param request = None"
    and "json_body request = Some b"
    and "property b ''sessionId'' = Some (JStr sessionId)"
    and "sessionId \<noteq> []"
  shows "DELETE numstr request s =
           (\<lparr>status = 200,
             body = SessionCleaned (slice8 sessionId)
                      (length (filter (\<lambda>e. string_includes (fst e) (slice8 sessionId)) s))
                      (or_else (property b ''reason'') (JStr ''unknown''))\<rparr>,
            filter (\<lambda>e. \<not> string_includes (fst e) (slice8 sessionId)) s)
         \<and> length (filter (\<lambda>e. string_includes (fst e) (slice8 sessionId)) s)
             = length s - length (snd (DELETE numstr request s))"
proof -
  have b: "b \<noteq> JNull"
    using assms(4) by (rule property_not_null)
  have run: "DELETE numstr request s =
           (\<lparr>status = 200,
             body = SessionCleaned (slice8 sessionId)
                      (length (filter (\<lambda>e. string_includes (fst e) (slice8 sessionId)) s))
                      (or_else (property b ''reason'') (JStr ''unknown''))\<rparr>,
            filter (\<lambda>e. \<not> string_includes (fst e) (slice8 sessionId)) s)"
    using assms b by (simp add: DELETE_def authorize_secret delete_session_eq)
  have "length s = length (filter (\<lambda>e. string_includes (fst e) (slice8 sessionId)) s)
                 + length (filter (\<lambda>e. \<not> string_includes (fst e) (slice8 sessionId)) s)"
    by (rule sum_length_filter_compl [symmetric])
  with run show ?thesis by simp
qed

theorem delete_by_session_witness:
  "DELETE show_int (authed None (Some (JObj [(''sessionId'', JStr ''abcdefgh12345678'')])))
      [(''normal-apple-12345678'', sample ''normal-apple-12345678'' 5),
       (''normal-apple-87654321'', sample ''normal-apple-87654321'' 6),
       (''mirage-banana-12345678'', sample ''mirage-banana-12345678'' 7)]
   = (\<lparr>status = 200, body = SessionCleaned ''12345678'' 2 (JStr ''unknown'')\<rparr>,
      [(''normal-apple-87654321'', sample ''normal-apple-87654321'' 6)])"
proof -
  have sfx: "slice8 ''abcdefgh12345678'' = ''12345678''"
    by (simp add: slice8_def)
  have inc: "string_includes ''normal-apple-12345678'' ''12345678''"
       "\<not> string_includes ''normal-apple-87654321'' ''12345678''"
       "string_includes ''mirage-banana-12345678'' ''12345678''"
    by (simp_all add: string_includes_def sublist_code)
  show ?thesis
    using delete_by_session
            [of "authed None (Some (JObj [(''sessionId'', JStr ''abcdefgh12345678'')]))"
                "JObj [(''sessionId'', JStr ''abcdefgh12345678'')]" "''abcdefgh12345678''"
                show_int
                "[(''normal-apple-12345678'', sample ''normal-apple-12345678'' 5),
                  (''normal-apple-87654321'', sample ''normal-apple-87654321'' 6),
                  (''mirage-banana-12345678'', sample ''mirage-banana-12345678'' 7)]"]
    by (simp add: authed_def sfx inc or_else_def)
qed

section \<open>Keep-alive\<close>

text \<open>
  C8. An authorised PATCH whose body names an id (a non-empty string): when the store
  has no such key, the answer is 404 and the store is unchanged; when it has, the answer
  is 200, the entry of that key has \<open>lastUpdated\<close> set to \<open>now\<close> and every other
  field as before, and every other key keeps its entry and its place.
\<close>

theorem patch_touches_lastUpdated_only:
  assumes "authorization request = Some ''GAMERSBERG''"
    and "json_body request = Some b"
    and "property b ''id'' = Some (JStr k)"
    and "k \<noteq> []"
  shows "case map_of s k of
           None \<Rightarrow> PATCH request now s = (failure 404 ''Not found'', s)
         | Some d \<Rightarrow>
             PATCH request now s
               = (\<lparr>status = 200, body = Pinged now\<rparr>, store_set k (d\<lparr>lastUpdated := now\<rparr>) s)
             \<and> map_of (snd (PATCH request now s)) = (map_of s)(k \<mapsto> d\<lparr>lastUpdated := now\<rparr>)
             \<and> map fst (snd (PATCH request now s)) = map fst s
             \<and> d\<lparr>lastUpdated := now\<rparr>
                 = \<lparr>id' = id' d, name = name d, price = price d, quantity = quantity d,
                    lastUpdated = now, createdAt = createdAt d\<rparr>"
proof (cases "map_of s k")
  case None
  with assms property_not_null [OF assms(3)] show ?thesis
    by (simp add: PATCH_def authorize_secret truthy_val_def)
next
  case (Some d)
  have run: "PATCH request now s
               = (\<lparr>status = 200, body = Pinged now\<rparr>, store_set k (d\<lparr>lastUpdated := now\<rparr>) s)"
    using assms property_not_null [OF assms(3)] Some
    by (simp add: PATCH_def authorize_secret truthy_val_def)
  have keys: "map fst (store_set k (d\<lparr>lastUpdated := now\<rparr>) s) = map fst s"
    using Some by (intro store_set_present) auto
  show ?thesis
    using Some run keys by (simp add: map_of_store_set)
qed

theorem patch_touches_lastUpdated_only_witness:
  "PATCH (authed None (Some (JObj [(''id'', JStr ''b'')]))) 900
      [(''a'', sample ''a'' 1), (''b'', sample ''b'' 2)]
     = (\<lparr>status = 200, body = Pinged 900\<rparr>,
        [(''a'', sample ''a'' 1), (''b'', (sample ''b'' 2)\<lparr>lastUpdated := 900\<rparr>)])
   \<and> PATCH (authed None (Some (JObj [(''id'', JStr ''c'')]))) 900
      [(''a'', sample ''a'' 1), (''b'', sample ''b'' 2)]
     = (failure 404 ''Not found'', [(''a'', sample ''a'' 1), (''b'', sample ''b'' 2)])"
  using patch_touches_lastUpdated_only
          [where request = "authed None (Some (JObj [(''id'', JStr ''b'')]))"
             and b = "JObj [(''id'', JStr ''b'')]" and k = "''b''" and now = 900
             and s = "[(''a'', sample ''a'' 1), (''b'', sample ''b'' 2)]"]
        patch_touches_lastUpdated_only
          [where request = "authed None (Some (JObj [(''id'', JStr ''c'')]))"
             and b = "JObj [(''id'', JStr ''c'')]" and k = "''c''" and now = 900
             and s = "[(''a'', sample ''a'' 1), (''b'', sample ''b'' 2)]"]
  by (simp add: authed_def)

text \<open>
  C10. PATCH, PUT and DELETE read the Map as it is, without a sweep. For an entry that is
  older than ten minutes at \<open>now\<close> and still in the store: a GET of its id at
  \<open>now\<close> answers 404, but a PATCH at \<open>now\<close> answers 200 and sets its
  \<open>lastUpdated\<close> to \<open>now\<close>, after which the same GET returns it; a PUT of
  its id answers 200 and a DELETE of its id returns it. No PATCH and no PUT removes a
  key.
\<close>

theorem patch_revives_expired_entry:
  assumes "is_map s"
    and "map_of s k = Some d"
    and "k \<noteq> []"
    and "now - lastUpdated d > 600000"
  shows "fst (GET (authed (Some k) None) now t s) = failure 404 ''Not found''
       \<and> PATCH (authed None (Some (JObj [(''id'', JStr k)]))) now s
           = (\<lparr>status = 200, body = Pinged now\<rparr>, store_set k (d\<lparr>lastUpdated := now\<rparr>) s)
       \<and> fst (GET (authed (Some k) None) now t
                (snd (PATCH (authed None (Some (JObj [(''id'', JStr k)]))) now s)))
           = \<lparr>status = 200, body = Stock (d\<lparr>lastUpdated := now\<rparr>) None\<rparr>
       \<and> PUT (authed None (Some (JObj [(''id'', JStr k)]))) now s
           = (\<lparr>status = 200, body = Updated (d\<lparr>lastUpdated := now\<rparr>)\<rparr>,
              store_set k (d\<lparr>lastUpdated := now\<rparr>) s)
       \<and> DELETE numstr (authed (Some k) None) s
           = (\<lparr>status = 200, body = Deleted d\<rparr>, store_delete k s)
       \<and> map fst (snd (PATCH request now s)) = map fst s
       \<and> map fst (snd (PUT request now s)) = map fst s"
proof -
  obtain c cs where k: "k = c # cs"
    using assms(3) by (cases k) auto
  have auth: "authorize (authed i b) m = None" for i m and b :: "'a json option"
    by (simp add: authorize_def authed_def)
  have exp: "expired now d"
    using assms(4) by (simp add: expired_def DATA_EXPIRY_def)
  have "(k, d) \<in> set s"
    using assms(2) by (rule map_of_SomeD)
  then have gone: "map_of (cleanupExpiredData now s) k = None"
    using exp by (force simp: cleanup_keys map_of_eq_None_iff image_iff)
  have get1: "fst (GET (authed (Some k) None) now t s) = failure 404 ''Not found''"
    using gone by (simp add: GET_def auth k) (simp add: authed_def)
  have patch: "PATCH (authed None (Some (JObj [(''id'', JStr k)]))) now s
           = (\<lparr>status = 200, body = Pinged now\<rparr>, store_set k (d\<lparr>lastUpdated := now\<rparr>) s)"
    using assms(2,3) by (simp add: PATCH_def authed_def authorize_secret truthy_val_def)
  have put: "PUT (authed None (Some (JObj [(''id'', JStr k)]))) now s
           = (\<lparr>status = 200, body = Updated (d\<lparr>lastUpdated := now\<rparr>)\<rparr>,
              store_set k (d\<lparr>lastUpdated := now\<rparr>) s)"
    using assms(2,3) by (simp add: PUT_def authed_def authorize_secret truthy_val_def Let_def)
  have del: "DELETE numstr (authed (Some k) None) s
           = (\<lparr>status = 200, body = Deleted d\<rparr>, store_delete k s)"
    using assms(2) by (simp add: DELETE_def auth) (simp add: authed_def k)
  let ?s' = "store_set k (d\<lparr>lastUpdated := now\<rparr>) s"
  have "is_map ?s'"
    using assms(1) by (rule is_map_store_set)
  then have "cleanupExpiredData now ?s' = filter (\<lambda>e. \<not> expired now (snd e)) ?s'"
    by (rule cleanup_filter)
  moreover have "map_of (filter (\<lambda>(k, v). \<not> expired now v) ?s') k = Some (d\<lparr>lastUpdated := now\<rparr>)"
    by (rule map_of_filter_in) (simp_all add: map_of_store_set expired_def DATA_EXPIRY_def)
  ultimately have alive: "map_of (cleanupExpiredData now ?s') k = Some (d\<lparr>lastUpdated := now\<rparr>)"
    by (simp add: case_prod_unfold)
  have get2: "fst (GET (authed (Some k) None) now t ?s') = \<lparr>status = 200, body = Stock (d\<lparr>lastUpdated := now\<rparr>) None\<rparr>"
    using alive by (simp add: GET_def auth k) (simp add: authed_def)
  have keys: "map fst (snd (PATCH request now s)) = map fst s"
       "map fst (snd (PUT request now s)) = map fst s"
    using patch_keeps_keys_and_createdAt [of request now s, THEN arg_cong, of "map fst"]
      put_keeps_keys_and_createdAt [of request now s, THEN arg_cong, of "map fst"]
    by (simp_all add: comp_def)
  show ?thesis
    using get1 patch get2 put del keys by simp
qed

theorem patch_revives_expired_entry_witness:
  "fst (GET (authed (Some ''a'') None) 700000 700001 [(''a'', sample ''a'' 1000)])
     = failure 404 ''Not found''
   \<and> PATCH (authed None (Some (JObj [(''id'', JStr ''a'')]))) 700000 [(''a'', sample ''a'' 1000)]
     = (\<lparr>status = 200, body = Pinged 700000\<rparr>, [(''a'', (sample ''a'' 1000)\<lparr>lastUpdated := 700000\<rparr>)])
   \<and> fst (GET (authed (Some ''a'') None) 700000 700001
            (snd (PATCH (authed None (Some (JObj [(''id'', JStr ''a'')]))) 700000 [(''a'', sample ''a'' 1000)])))
     = \<lparr>status = 200, body = Stock ((sample ''a'' 1000)\<lparr>lastUpdated := 700000\<rparr>) None\<rparr>"
proof -
  have h: "is_map [(''a'', sample ''a'' 1000)]"
    "map_of [(''a'', sample ''a'' 1000)] ''a'' = Some (sample ''a'' 1000)"
    "''a'' \<noteq> []"
    "700000 - lastUpdated (sample ''a'' 1000) > 600000"
    by (simp_all add: is_map_def sample_def)
  from patch_revives_expired_entry [OF h, where t = 700001 and numstr = show_int
         and request = "authed None None"]
  show ?thesis by (elim conjE) simp
qed

section \<open>Creation\<close>



text \<open>
  C1, as stated, fails: a second session batch that derives the same id stores a new
  entry whose \<open>createdAt\<close> is the time of the second POST.
\<close>

theorem createdAt_reset_by_later_batch:
  "map_option createdAt
     (map_of (snd (POST show_int (authed None (Some apple_banana)) 1000 1000 []))
        ''normal-apple-12345678'') = Some 1000
   \<and> map_option createdAt
     (map_of (snd (POST show_int (authed None (Some apple_banana)) 2000 2000
                (snd (POST show_int (authed None (Some apple_banana)) 1000 1000 []))))
        ''normal-apple-12345678'') = Some 2000"
  by code_simp

text \<open>
  C1, amended. A PUT and a PATCH leave the keys of the store and the \<open>createdAt\<close> of
  every entry as they were. Every entry of the store after a POST is an entry of the
  store before it, or carries that POST's reading of the clock as both
  \<open>createdAt\<close> and \<open>lastUpdated\<close>. And an authorised session batch that answers
  201 leaves, at the derived id of each of its valid elements, an entry whose
  \<open>createdAt\<close> is the time of that POST, whatever the store held there before.
\<close>

theorem createdAt_kept_by_update_reset_by_batch:
  "map (\<lambda>e. (fst e, createdAt (snd e))) (snd (PUT request now s))
     = map (\<lambda>e. (fst e, createdAt (snd e))) s
   \<and> map (\<lambda>e. (fst e, createdAt (snd e))) (snd (PATCH request now s))
     = map (\<lambda>e. (fst e, createdAt (snd e))) s
   \<and> (\<forall>e \<in> set (snd (POST numstr request t0 t1 s)).
         e \<in> set s \<or> (createdAt (snd e) = lastUpdated (snd e)
            \<and> (createdAt (snd e) = t0 \<or> createdAt (snd e) = t1)))
   \<and> (authorization request = Some ''GAMERSBERG'' \<longrightarrow> json_body request = Some b
        \<longrightarrow> is_session_batch b \<longrightarrow> property b ''sessionId'' = Some (JStr sid)
        \<longrightarrow> status (fst (POST numstr request t0 t1 s)) = 201
        \<longrightarrow> (\<forall>f \<in> set (stock_array (property b ''normalStock'')). \<forall>e.
               fruit_of ''normal'' ''Normal'' (slice8 sid) t0 f = Some e
               \<longrightarrow> map_option createdAt (map_of (snd (POST numstr request t0 t1 s)) (id' e))
                     = Some t0)
          \<and> (\<forall>f \<in> set (stock_array (property b ''mirageStock'')). \<forall>e.
               fruit_of ''mirage'' ''Mirage'' (slice8 sid) t0 f = Some e
               \<longrightarrow> map_option createdAt (map_of (snd (POST numstr request t0 t1 s)) (id' e))
                     = Some t0))"
proof -
  have reset: "(\<forall>f \<in> set (stock_array (property b ''normalStock'')). \<forall>e.
               fruit_of ''normal'' ''Normal'' (slice8 sid) t0 f = Some e
               \<longrightarrow> map_option createdAt (map_of (snd (POST numstr request t0 t1 s)) (id' e))
                     = Some t0)
          \<and> (\<forall>f \<in> set (stock_array (property b ''mirageStock'')). \<forall>e.
               fruit_of ''mirage'' ''Mirage'' (slice8 sid) t0 f = Some e
               \<longrightarrow> map_option createdAt (map_of (snd (POST numstr request t0 t1 s)) (id' e))
                     = Some t0)"
    if a: "authorization request = Some ''GAMERSBERG''" "json_body request = Some b"
      "is_session_batch b" "property b ''sessionId'' = Some (JStr sid)"
      and st: "status (fst (POST numstr request t0 t1 s)) = 201"
  proof -
    have eq: "POST numstr request t0 t1 s = POST_session numstr b t0 s"
      using a by (rule post_is_session)
    with st have st': "status (fst (POST_session numstr b t0 s)) = 201" by simp
    show ?thesis
      unfolding eq using post_session_stamps [OF st' a(4)] by blast
  qed
  show ?thesis
    using put_keeps_keys_and_createdAt [of request now s]
      patch_keeps_keys_and_createdAt [of request now s]
      post_entries [of _ numstr request t0 t1 s] reset
    by blast
qed

theorem createdAt_kept_by_update_reset_by_batch_witness:
  "snd (PUT (authed None (Some (JObj [(''id'', JStr ''a''), (''price'', JNum 7)]))) 900
            [(''a'', sample ''a'' 1)])
     = [(''a'', (sample ''a'' 1)\<lparr>price := JNum 7, lastUpdated := 900\<rparr>)]
   \<and> map (\<lambda>e. (fst e, createdAt (snd e)))
     (snd (PUT (authed None (Some (JObj [(''id'', JStr ''a''), (''price'', JNum 7)]))) 900
            [(''a'', sample ''a'' 1)])) = [(''a'', 1)]
   \<and> map (\<lambda>e. (fst e, createdAt (snd e)))
     (snd (PATCH (authed None (Some (JObj [(''id'', JStr ''a'')]))) 900
            [(''a'', sample ''a'' 1)])) = [(''a'', 1)]
   \<and> list_all (\<lambda>e. createdAt (snd e) = 2000)
        (snd (POST show_int (authed None (Some apple_banana)) 2000 2000
               (snd (POST show_int (authed None (Some apple_banana)) 1000 1000 []))))
   \<and> map_option createdAt
        (map_of (snd (POST show_int (authed None (Some apple_banana)) 1000 1000 []))
           ''mirage-banana-12345678'') = Some 1000
   \<and> map_option createdAt
        (map_of (snd (POST show_int (authed None (Some apple_banana)) 2000 2000
                   (snd (POST show_int (authed None (Some apple_banana)) 1000 1000 []))))
           ''mirage-banana-12345678'') = Some 2000"
proof -
  let ?s1 = "snd (POST show_int (authed None (Some apple_banana)) 1000 1000 [])"
  have run: "snd (PUT (authed None (Some (JObj [(''id'', JStr ''a''), (''price'', JNum 7)]))) 900
            [(''a'', sample ''a'' 1)])
     = [(''a'', (sample ''a'' 1)\<lparr>price := JNum 7, lastUpdated := 900\<rparr>)]"
    by (simp add: PUT_def authed_def authorize_secret truthy_val_def Let_def)
  have put: "map (\<lambda>e. (fst e, createdAt (snd e)))
     (snd (PUT (authed None (Some (JObj [(''id'', JStr ''a''), (''price'', JNum 7)]))) 900
            [(''a'', sample ''a'' 1)])) = [(''a'', 1)]"
    using createdAt_kept_by_update_reset_by_batch
            [where request = "authed None (Some (JObj [(''id'', JStr ''a''), (''price'', JNum 7)]))"
               and now = 900 and s = "[(''a'', sample ''a'' 1)]", THEN conjunct1]
    by (simp add: sample_def)
  have patch: "map (\<lambda>e. (fst e, createdAt (snd e)))
     (snd (PATCH (authed None (Some (JObj [(''id'', JStr ''a'')]))) 900
            [(''a'', sample ''a'' 1)])) = [(''a'', 1)]"
    using createdAt_kept_by_update_reset_by_batch
            [where request = "authed None (Some (JObj [(''id'', JStr ''a'')]))"
               and now = 900 and s = "[(''a'', sample ''a'' 1)]", THEN conjunct2, THEN conjunct1]
    by (simp add: sample_def)
  note inst = createdAt_kept_by_update_reset_by_batch
            [where request = "authed None (Some apple_banana)" and numstr = show_int
               and b = apple_banana and sid = "''abcdefgh12345678''"
               and ?t0.0 = 2000 and ?t1.0 = 2000 and s = ?s1]
  have post: "list_all (\<lambda>e. createdAt (snd e) = 2000)
        (snd (POST show_int (authed None (Some apple_banana)) 2000 2000 ?s1))"
    using inst [THEN conjunct2, THEN conjunct2, THEN conjunct1]
    unfolding second_batch by (simp add: first_batch)
  have h: "authorization (authed None (Some apple_banana)) = Some ''GAMERSBERG''"
    "json_body (authed None (Some apple_banana)) = Some apple_banana"
    "is_session_batch apple_banana"
    "property apple_banana ''sessionId'' = Some (JStr ''abcdefgh12345678'')"
    by (simp_all add: authed_def apple_banana_def is_session_batch_def truthy_val_def)
  have st: "status (fst (POST show_int (authed None (Some apple_banana)) 2000 2000 ?s1)) = 201"
    by (simp add: second_batch_answer)
  have mem: "fruit ''Banana'' 200 \<in> set (stock_array (property apple_banana ''mirageStock''))"
    by (simp add: apple_banana_def)
  have after: "map_option createdAt
        (map_of (snd (POST show_int (authed None (Some apple_banana)) 2000 2000 ?s1))
           ''mirage-banana-12345678'') = Some 2000"
    using inst [THEN conjunct2, THEN conjunct2, THEN conjunct2, rule_format, OF h st,
        THEN conjunct2, rule_format, OF mem banana_entry]
    by simp
  have before: "map_option createdAt (map_of ?s1 ''mirage-banana-12345678'') = Some 1000"
    by (simp add: first_batch)
  show ?thesis
    using run put patch post before after by simp
qed

section \<open>Session batches\<close>

text \<open>
  C4. An authorised POST into the empty store of a body whose \<^verbatim>\<open>sessionId\<close> is
  \<^verbatim>\<open>abcdefgh12345678\<close> and whose two arrays hold one element each, with a
  non-empty string name and a numeric price, answers 201 and leaves exactly two
  entries: keys \<^verbatim>\<open>normal-\<close> and \<^verbatim>\<open>mirage-\<close>, then the normalised name, then
  \<^verbatim>\<open>-12345678\<close>; names with \<^verbatim>\<open> (Normal)\<close> and \<^verbatim>\<open> (Mirage)\<close> appended;
  quantity 1. The normalised name is the lower-cased name (letters A to Z become a to
  z, other ASCII characters stay) in which every maximal run of white space (tab, line
  feed, vertical tab, form feed, carriage return, space, no-break space) is one dash
  and every other character stays: it holds no white space.
\<close>

theorem session_batch_creates_two_entries:
  assumes "authorization request = Some ''GAMERSBERG''"
    and "json_body request = Some b"
    and "property b ''sessionId'' = Some (JStr ''abcdefgh12345678'')"
    and "property b ''normalStock'' = Some (JArr [f1])"
    and "property b ''mirageStock'' = Some (JArr [f2])"
    and "property f1 ''name'' = Some (JStr n1)" and "n1 \<noteq> []"
    and "property f1 ''price'' = Some (JNum p1)"
    and "property f2 ''name'' = Some (JStr n2)" and "n2 \<noteq> []"
    and "property f2 ''price'' = Some (JNum p2)"
  shows "POST numstr request t0 t1 []
           = (\<lparr>status = 201, body = BatchSummary (JStr ''abcdefgh12345678'') t0\<rparr>,
              [(''normal-'' @ replace_spaces (toLowerCase n1) @ ''-12345678'',
                \<lparr>id' = ''normal-'' @ replace_spaces (toLowerCase n1) @ ''-12345678'',
                 name = JStr (n1 @ '' (Normal)''), price = JNum p1, quantity = JNum 1,
                 lastUpdated = t0, createdAt = t0\<rparr>),
               (''mirage-'' @ replace_spaces (toLowerCase n2) @ ''-12345678'',
                \<lparr>id' = ''mirage-'' @ replace_spaces (toLowerCase n2) @ ''-12345678'',
                 name = JStr (n2 @ '' (Mirage)''), price = JNum p2, quantity = JNum 1,
                 lastUpdated = t0, createdAt = t0\<rparr>)])
       \<and> (\<forall>c \<in> set (replace_spaces (toLowerCase n1) @ replace_spaces (toLowerCase n2)).
             \<not> is_space c)
       \<and> replace_spaces [] = []
       \<and> (\<not> is_space a \<longrightarrow>
             replace_spaces (x @ a # y) = replace_spaces x @ a # replace_spaces y)
       \<and> (ws \<noteq> [] \<longrightarrow> (\<forall>c \<in> set ws. is_space c) \<longrightarrow> replace_spaces ws = ''-'')
       \<and> (is_space c \<longleftrightarrow>
             c \<in> set [CHR 0x09, CHR 0x0A, CHR 0x0B, CHR 0x0C, CHR 0x0D, CHR 0x20, CHR 0xA0])
       \<and> is_space (toLowerCase_char c) = is_space c
       \<and> toLowerCase (x @ y) = toLowerCase x @ toLowerCase y
       \<and> toLowerCase ''ABCDEFGHIJKLMNOPQRSTUVWXYZ'' = ''abcdefghijklmnopqrstuvwxyz''
       \<and> toLowerCase ''abcdefghijklmnopqrstuvwxyz 0123456789-_()''
           = ''abcdefghijklmnopqrstuvwxyz 0123456789-_()''"
proof -
  have nn: "b \<noteq> JNull" "f1 \<noteq> JNull" "f2 \<noteq> JNull"
    using assms by (auto dest: property_not_null)
  have sfx: "slice8 ''abcdefgh12345678'' = ''12345678''"
    by (simp add: slice8_def)
  have batch: "is_session_batch b"
    using assms by (simp add: is_session_batch_def truthy_val_def)
  have "POST numstr request t0 t1 [] = POST_session numstr b t0 []"
    using assms(1,2) nn batch by (simp add: POST_def authorize_secret)
  also have "\<dots> = (\<lparr>status = 201, body = BatchSummary (JStr ''abcdefgh12345678'') t0\<rparr>,
              [(''normal-'' @ replace_spaces (toLowerCase n1) @ ''-12345678'',
                \<lparr>id' = ''normal-'' @ replace_spaces (toLowerCase n1) @ ''-12345678'',
                 name = JStr (n1 @ '' (Normal)''), price = JNum p1, quantity = JNum 1,
                 lastUpdated = t0, createdAt = t0\<rparr>),
               (''mirage-'' @ replace_spaces (toLowerCase n2) @ ''-12345678'',
                \<lparr>id' = ''mirage-'' @ replace_spaces (toLowerCase n2) @ ''-12345678'',
                 name = JStr (n2 @ '' (Mirage)''), price = JNum p2, quantity = JNum 1,
                 lastUpdated = t0, createdAt = t0\<rparr>)])"
    using assms nn
    by (simp add: POST_session_def upsert_fruit_def fruit_entry_def truthy_val_def sfx
          normalize_name_def)
  finally have run: "POST numstr request t0 t1 []
           = (\<lparr>status = 201, body = BatchSummary (JStr ''abcdefgh12345678'') t0\<rparr>,
              [(''normal-'' @ replace_spaces (toLowerCase n1) @ ''-12345678'',
                \<lparr>id' = ''normal-'' @ replace_spaces (toLowerCase n1) @ ''-12345678'',
                 name = JStr (n1 @ '' (Normal)''), price = JNum p1, quantity = JNum 1,
                 lastUpdated = t0, createdAt = t0\<rparr>),
               (''mirage-'' @ replace_spaces (toLowerCase n2) @ ''-12345678'',
                \<lparr>id' = ''mirage-'' @ replace_spaces (toLowerCase n2) @ ''-12345678'',
                 name = JStr (n2 @ '' (Mirage)''), price = JNum p2, quantity = JNum 1,
                 lastUpdated = t0, createdAt = t0\<rparr>)])" .
  have nospace: "\<forall>c \<in> set (replace_spaces (toLowerCase n1) @ replace_spaces (toLowerCase n2)).
             \<not> is_space c"
    using replace_spaces_no_space by auto
  show ?thesis
    using run nospace replace_spaces_append [of a x y] replace_spaces_run [of ws]
      is_space_iff [of c] is_space_toLowerCase_char [of c] toLowerCase_append [of x y]
      toLowerCase_alphabet toLowerCase_others
    by (intro conjI impI) simp_all
qed

theorem session_batch_creates_two_entries_witness:
  "POST show_int (authed None (Some apple_banana)) 1000 1000 []
     = (\<lparr>status = 201, body = BatchSummary (JStr ''abcdefgh12345678'') 1000\<rparr>,
        [(''normal-apple-12345678'',
          \<lparr>id' = ''normal-apple-12345678'', name = JStr ''Apple (Normal)'', price = JNum 100,
           quantity = JNum 1, lastUpdated = 1000, createdAt = 1000\<rparr>),
        (''mirage-banana-12345678'',
          \<lparr>id' = ''mirage-banana-12345678'', name = JStr ''Banana (Mirage)'', price = JNum 200,
           quantity = JNum 1, lastUpdated = 1000, createdAt = 1000\<rparr>)])
   \<and> POST show_int (authed None (Some spaced_batch)) 1000 1000 []
     = (\<lparr>status = 201, body = BatchSummary (JStr ''abcdefgh12345678'') 1000\<rparr>,
        [(''normal-dark-blade-12345678'',
          \<lparr>id' = ''normal-dark-blade-12345678'', name = JStr ''Dark  Blade (Normal)'',
           price = JNum 100, quantity = JNum 1, lastUpdated = 1000, createdAt = 1000\<rparr>),
        (''mirage--dragon-fruit-x--12345678'',
          \<lparr>id' = ''mirage--dragon-fruit-x--12345678'', name = JStr '' Dragon Fruit X  (Mirage)'',
           price = JNum 200, quantity = JNum 1, lastUpdated = 1000, createdAt = 1000\<rparr>)])"
proof -
  have one: "POST show_int (authed None (Some apple_banana)) 1000 1000 []
     = (\<lparr>status = 201, body = BatchSummary (JStr ''abcdefgh12345678'') 1000\<rparr>,
        [(''normal-apple-12345678'',
          \<lparr>id' = ''normal-apple-12345678'', name = JStr ''Apple (Normal)'', price = JNum 100,
           quantity = JNum 1, lastUpdated = 1000, createdAt = 1000\<rparr>),
        (''mirage-banana-12345678'',
          \<lparr>id' = ''mirage-banana-12345678'', name = JStr ''Banana (Mirage)'', price = JNum 200,
           quantity = JNum 1, lastUpdated = 1000, createdAt = 1000\<rparr>)])"
    using session_batch_creates_two_entries
          [where request = "authed None (Some apple_banana)" and b = apple_banana
             and ?f1.0 = "fruit ''Apple'' 100" and ?f2.0 = "fruit ''Banana'' 200"
             and ?n1.0 = "''Apple''" and ?n2.0 = "''Banana''" and ?p1.0 = 100 and ?p2.0 = 200
             and numstr = show_int and ?t0.0 = 1000 and ?t1.0 = 1000, THEN conjunct1]
    by (simp add: authed_def apple_banana_def fruit_def apple_banana_names)
  have two: "POST show_int (authed None (Some spaced_batch)) 1000 1000 []
     = (\<lparr>status = 201, body = BatchSummary (JStr ''abcdefgh12345678'') 1000\<rparr>,
        [(''normal-dark-blade-12345678'',
          \<lparr>id' = ''normal-dark-blade-12345678'', name = JStr ''Dark  Blade (Normal)'',
           price = JNum 100, quantity = JNum 1, lastUpdated = 1000, createdAt = 1000\<rparr>),
        (''mirage--dragon-fruit-x--12345678'',
          \<lparr>id' = ''mirage--dragon-fruit-x--12345678'', name = JStr '' Dragon Fruit X  (Mirage)'',
           price = JNum 200, quantity = JNum 1, lastUpdated = 1000, createdAt = 1000\<rparr>)])"
    using session_batch_creates_two_entries
          [where request = "authed None (Some spaced_batch)" and b = spaced_batch
             and ?f1.0 = "fruit ''Dark  Blade'' 100" and ?f2.0 = "fruit '' Dragon Fruit X '' 200"
             and ?n1.0 = "''Dark  Blade''" and ?n2.0 = "'' Dragon Fruit X ''"
             and ?p1.0 = 100 and ?p2.0 = 200
             and numstr = show_int and ?t0.0 = 1000 and ?t1.0 = 1000, THEN conjunct1]
    by (simp add: authed_def spaced_batch_def fruit_def spaced_names)
  from one two show ?thesis by simp
qed

text \<open>
  A session batch with a string \<^verbatim>\<open>sessionId\<close> whose elements each either fail the
  test of the loop and are not \<^verbatim>\<open>null\<close>, or carry a non-empty string name and a
  numeric price: the answer is 201, the store is the one obtained by storing the valid
  elements in order, and its keys are the keys before plus the ids of the valid
  elements.
\<close>

lemma batch_of_skipped_and_valid_elements:
  assumes "authorization request = Some ''GAMERSBERG''"
    and "json_body request = Some b"
    and "property b ''sessionId'' = Some (JStr sid)"
    and "is_session_batch b"
    and "\<forall>f \<in> set (stock_array (property b ''normalStock'')
                    @ stock_array (property b ''mirageStock'')).
           skipped_fruit f \<or> valid_fruit f"
  shows "POST numstr request t0 t1 s
           = (\<lparr>status = 201, body = BatchSummary (JStr sid) t0\<rparr>,
              fold (store_fruit ''mirage'' ''Mirage'' (slice8 sid) t0)
                (filter valid_fruit (stock_array (property b ''mirageStock'')))
                (fold (store_fruit ''normal'' ''Normal'' (slice8 sid) t0)
                   (filter valid_fruit (stock_array (property b ''normalStock''))) s))
       \<and> fst ` set (snd (POST numstr request t0 t1 s))
           = fst ` set s
             \<union> id' ` (\<Union>f \<in> set (stock_array (property b ''normalStock'')).
                        set_option (fruit_of ''normal'' ''Normal'' (slice8 sid) t0 f))
             \<union> id' ` (\<Union>f \<in> set (stock_array (property b ''mirageStock'')).
                        set_option (fruit_of ''mirage'' ''Mirage'' (slice8 sid) t0 f))"
proof -
  let ?normal = "stock_array (property b ''normalStock'')"
  let ?mirage = "stock_array (property b ''mirageStock'')"
  let ?s1 = "fold (store_fruit ''normal'' ''Normal'' (slice8 sid) t0) ?normal s"
  let ?s2 = "fold (store_fruit ''mirage'' ''Mirage'' (slice8 sid) t0) ?mirage ?s1"
  have n: "process_stock numstr ''normal'' ''Normal'' (JStr sid) t0 ?normal s = Inr ?s1"
    using assms(5) by (intro process_stock_string_session) simp
  have m: "process_stock numstr ''mirage'' ''Mirage'' (JStr sid) t0 ?mirage ?s1 = Inr ?s2"
    using assms(5) by (intro process_stock_string_session) simp
  have "POST numstr request t0 t1 s = POST_session numstr b t0 s"
    using assms(1,2,4) property_not_null [OF assms(3)] by (simp add: POST_def authorize_secret)
  also have "\<dots> = (\<lparr>status = 201, body = BatchSummary (JStr sid) t0\<rparr>, ?s2)"
    using assms(3) n m by (simp add: POST_session_def)
  finally have run: "POST numstr request t0 t1 s
      = (\<lparr>status = 201, body = BatchSummary (JStr sid) t0\<rparr>, ?s2)" .
  have keys: "fst ` set ?s2 = fst ` set s
             \<union> id' ` (\<Union>f \<in> set ?normal. set_option (fruit_of ''normal'' ''Normal'' (slice8 sid) t0 f))
             \<union> id' ` (\<Union>f \<in> set ?mirage. set_option (fruit_of ''mirage'' ''Mirage'' (slice8 sid) t0 f))"
    by (simp only: keys_fold_store_fruit)
  show ?thesis
    using run keys by (simp add: fold_store_fruit_valid)
qed

lemma batch_of_skipped_and_valid_elements_example:
  "POST show_int (authed None (Some mixed_batch)) 1000 1000 []
     = (\<lparr>status = 201, body = BatchSummary (JStr ''abcdefgh12345678'') 1000\<rparr>,
        [(''normal-apple-12345678'',
          \<lparr>id' = ''normal-apple-12345678'', name = JStr ''Apple (Normal)'', price = JNum 100,
           quantity = JNum 1, lastUpdated = 1000, createdAt = 1000\<rparr>),
        (''mirage-banana-12345678'',
          \<lparr>id' = ''mirage-banana-12345678'', name = JStr ''Banana (Mirage)'', price = JNum 200,
           quantity = JNum 1, lastUpdated = 1000, createdAt = 1000\<rparr>)])"
proof -
  have h: "authorization (authed None (Some mixed_batch)) = Some ''GAMERSBERG''"
    "json_body (authed None (Some mixed_batch)) = Some mixed_batch"
    "property mixed_batch ''sessionId'' = Some (JStr ''abcdefgh12345678'')"
    "is_session_batch mixed_batch"
    by (simp_all add: authed_def mixed_batch_def is_session_batch_def truthy_val_def)
  have all: "\<forall>f \<in> set (stock_array (property mixed_batch ''normalStock'')
                    @ stock_array (property mixed_batch ''mirageStock'')).
           skipped_fruit f \<or> valid_fruit f"
    using mixed_batch_elements unfolding list_all_iff .
  from batch_of_skipped_and_valid_elements [OF h all, of show_int 1000 1000 "[]", THEN conjunct1]
  show ?thesis
    unfolding mixed_batch_stored .
qed

text \<open>
  C7. The loop skips an element only when \<^verbatim>\<open>fruit.name\<close> can be read and the
  name, when truthy, is a string. A \<^verbatim>\<open>null\<close> element misses a name, yet the POST
  answers 500: the element before it stays stored and the valid element after it is
  not stored. An element whose name is a number does the same.
\<close>

theorem throwing_batch_element_answers_500:
  "POST show_int (authed None (Some null_batch)) 1000 1000 []
     = (failure 500 ''Internal server error'',
        [(''normal-apple-12345678'',
          \<lparr>id' = ''normal-apple-12345678'', name = JStr ''Apple (Normal)'', price = JNum 100,
           quantity = JNum 1, lastUpdated = 1000, createdAt = 1000\<rparr>)])
   \<and> POST show_int (authed None (Some numeric_name_batch)) 1000 1000 []
     = (failure 500 ''Internal server error'',
        [(''normal-apple-12345678'',
          \<lparr>id' = ''normal-apple-12345678'', name = JStr ''Apple (Normal)'', price = JNum 100,
           quantity = JNum 1, lastUpdated = 1000, createdAt = 1000\<rparr>)])"
  by code_simp

end
